theory Spec2Isabelle
  imports Complex_Main "HOL-Library.AList" "HOL-Library.Multiset" "HOL-Library.Sublist"
begin

chapter \<open>ThreadJS: version selector and example mods\<close>

text \<open>
  The development follows the five source files: \<^verbatim>\<open>version.js\<close> (the documentation
  version selector), \<^verbatim>\<open>spawn-kit.js\<close>, \<^verbatim>\<open>player-tracker.js\<close> (which also holds the
  teleport-home mod) and the sample mod's \<^verbatim>\<open>main.js\<close>.

  Conventions of the embedding.
  \<^item> Message literals keep their ASCII text; the colour codes (section sign plus a letter)
    and the emoji of the source are left out of the strings.
  \<^item> A call into the host (\<^verbatim>\<open>api.giveItem\<close>, \<^verbatim>\<open>api.saveData\<close>, \<^verbatim>\<open>ctx.reply\<close>,
    \<^verbatim>\<open>player.giveItemStack\<close>, ...) is recorded in a trace of effects, in call order, and is
    taken to return normally.
  \<^item> Clock readings (\<^verbatim>\<open>Date.now()\<close>, \<^verbatim>\<open>System.currentTimeMillis()\<close>) and the tick counter
    are integers; they are arguments of the handler that reads them. Coordinates are reals.
  \<^item> The mappings of the three API mods are JavaScript objects, and \<^verbatim>\<open>obj[key]\<close> is modelled
    with its walk to \<^verbatim>\<open>Object.prototype\<close>. The built-in objects found there are taken as
    they are when the script starts; a handler run that would read a property of one, or
    replace or modify the prototype of a mapping, has the result \<open>None\<close>.
\<close>

section \<open>version.js\<close>

subsection \<open>The version table\<close>

text \<open>The page types of the JSDoc union \<^verbatim>\<open>("api"|"inspector"|"examples")\<close>.\<close>

datatype page_key = Api | Inspector | Examples

record version_entry =
  vid :: string
  vlabel :: string
  vnote :: string
  pages :: "(page_key \<times> string) list"

definition VERSION_CONFIG :: "version_entry list" where
  "VERSION_CONFIG =
    [ \<lparr> vid = ''main'', vlabel = ''main (latest)'',
        vnote = ''Tracking the latest code on the main branch.'',
        pages = [(Api, ''index.html''), (Inspector, ''inspector.html''),
                 (Examples, ''example-mods.html'')] \<rparr>,
      \<lparr> vid = ''v1.0.0'', vlabel = ''v1.0.0'',
        vnote = ''Snapshot of the API for ThreadJS v1.0.0.'',
        pages = [(Api, ''v1.0.0/index.html''), (Inspector, ''v1.0.0/inspector.html''),
                 (Examples, ''v1.0.0/example-mods.html'')] \<rparr> ]"

subsection \<open>Strings\<close>

text \<open>\<^verbatim>\<open>s.replace(/\/+$/, "")\<close>: the whole trailing run of slashes is removed.\<close>

definition strip_trailing_slashes :: "string \<Rightarrow> string" where
  "strip_trailing_slashes s = rev (dropWhile (\<lambda>c. c = CHR ''/'') (rev s))"

text \<open>\<^verbatim>\<open>s.endsWith(t)\<close>.\<close>

definition endsWith :: "string \<Rightarrow> string \<Rightarrow> bool" where
  "endsWith s t = (length t \<le> length s \<and> drop (length s - length t) s = t)"

subsection \<open>The page\<close>

text \<open>
  A \<^verbatim>\<open><select></select>\<close> element: the ids of the options and option groups that the page
  itself has put inside it, its options in order (value and text), its selected index, and
  the text node that an assignment to \<^verbatim>\<open>textContent\<close> leaves in it. Assigning
  \<^verbatim>\<open>selectedIndex\<close> an index that names no option leaves nothing selected, and the property
  then reads \<open>-1\<close>.
\<close>

record select_el =
  sel_inner_ids :: "string list"
  sel_options :: "(string \<times> string) list"
  selectedIndex :: int
  sel_text :: string

text \<open>
  Any other element (a \<^verbatim>\<open><span></span>\<close>, say): the options appended to it, its text, and the
  property \<^verbatim>\<open>selectedIndex\<close>, which such an element has only once a script has assigned it.
\<close>

record plain_el =
  plain_children :: "(string \<times> string) list"
  plain_text :: string
  plain_selectedIndex :: "int option"

datatype element = SelectEl select_el | PlainEl plain_el

definition inner_ids :: "element \<Rightarrow> string list" where
  "inner_ids el = (case el of SelectEl select \<Rightarrow> sel_inner_ids select | PlainEl plain \<Rightarrow> [])"

definition appendChild :: "string \<times> string \<Rightarrow> element \<Rightarrow> element" where
  "appendChild opt el =
     (case el of
        SelectEl select \<Rightarrow> SelectEl (select\<lparr>sel_options := sel_options select @ [opt]\<rparr>)
      | PlainEl plain \<Rightarrow> PlainEl (plain\<lparr>plain_children := plain_children plain @ [opt]\<rparr>))"

definition set_selectedIndex :: "int \<Rightarrow> element \<Rightarrow> element" where
  "set_selectedIndex n el =
     (case el of
        SelectEl select \<Rightarrow>
          SelectEl (select\<lparr>selectedIndex :=
                      (if 0 \<le> n \<and> n < int (length (sel_options select)) then n else -1)\<rparr>)
      | PlainEl plain \<Rightarrow> PlainEl (plain\<lparr>plain_selectedIndex := Some n\<rparr>))"

text \<open>
  \<^verbatim>\<open>el.textContent = t\<close> replaces all children of the element by one text node: a select
  loses its options, and with them its selection.
\<close>

definition set_textContent :: "string \<Rightarrow> element \<Rightarrow> element" where
  "set_textContent t el =
     (case el of
        SelectEl select \<Rightarrow>
          SelectEl \<lparr>sel_inner_ids = [], sel_options = [], selectedIndex = -1, sel_text = t\<rparr>
      | PlainEl plain \<Rightarrow> PlainEl (plain\<lparr>plain_children := [], plain_text := t\<rparr>))"

text \<open>\<^verbatim>\<open>select.value\<close>: the value of the selected option, the empty string when there is none.\<close>

definition select_value :: "select_el \<Rightarrow> string" where
  "select_value select =
     (if 0 \<le> selectedIndex select \<and> selectedIndex select < int (length (sel_options select))
      then fst (sel_options select ! nat (selectedIndex select)) else [])"

text \<open>
  The page as the script sees it: its elements with their ids, in document order, the
  location (its path name, and the last string assigned to \<^verbatim>\<open>window.location.href\<close>), the
  console, and the change listeners the script has registered (element id and page key).
  The table lists selects and other elements side by side, none of them inside another;
  what lies inside a select is part of the select's entry.
\<close>

record document =
  elements :: "(string \<times> element) list"
  pathname :: string
  href_assigned :: "string option"
  console :: "string list"
  change_listeners :: "(string \<times> page_key) list"

text \<open>
  \<^verbatim>\<open>document.getElementById(id)\<close> returns the first element in document order that carries
  the id: an element of the table (\<open>Listed\<close>, with its state), or an option or option group
  inside a select (\<open>Nested\<close>). Two lookups of one id find the same element.
\<close>

datatype node = Listed element | Nested

fun getElementById :: "(string \<times> element) list \<Rightarrow> string \<Rightarrow> node option" where
  "getElementById [] i = None"
| "getElementById ((j, el) # rest) i =
     (if j = i then Some (Listed el)
      else if i \<in> set (inner_ids el) then Some Nested
      else getElementById rest i)"

record selector_options =
  selectId :: string
  noteId :: "string option"
  pageKey :: page_key

subsection \<open>initThreadJsVersionSelector\<close>

text \<open>
  The body of \<^verbatim>\<open>VERSION_CONFIG.forEach(function (v, idx) {...})\<close>, over the entries from
  index \<open>idx\<close> on; the loop state is the element \<^verbatim>\<open>select\<close> and \<^verbatim>\<open>currentIndex\<close>. An entry
  with no (or an empty) path for the page key is skipped without an option.
\<close>

fun populate ::
  "page_key \<Rightarrow> string \<Rightarrow> version_entry list \<Rightarrow> nat \<Rightarrow> element \<times> nat \<Rightarrow> element \<times> nat" where
  "populate pk currentPath [] idx acc = acc"
| "populate pk currentPath (v # vs) idx (select, currentIndex) =
     (case map_of (pages v) pk of
        None \<Rightarrow> populate pk currentPath vs (Suc idx) (select, currentIndex)
      | Some pageHref \<Rightarrow>
          if pageHref = [] then populate pk currentPath vs (Suc idx) (select, currentIndex)
          else
            let select' = appendChild (vid v, vlabel v) select;
                hrefPath = strip_trailing_slashes (''/'' @ pageHref)
            in populate pk currentPath vs (Suc idx)
                 (select', if endsWith currentPath hrefPath then idx else currentIndex))"

definition nth_opt :: "'a list \<Rightarrow> nat \<Rightarrow> 'a option" where
  "nth_opt xs i = (if i < length xs then Some (xs ! i) else None)"

text \<open>
  \<^verbatim>\<open>select\<close> and \<^verbatim>\<open>noteEl\<close> are references to elements of the page: the model holds the id
  with the node found, and writes through the id. The statements run in the order of the
  source: the options are appended and \<^verbatim>\<open>selectedIndex\<close> is assigned to the element
  \<^verbatim>\<open>select\<close>; then, if there is a note element and the current version has a note,
  \<^verbatim>\<open>noteEl.textContent\<close> is assigned, to the element \<^verbatim>\<open>noteId\<close> names in the state it has at
  that point. So when both ids name one element, the assignment of the note acts on the
  select that was just filled.

  The result is \<open>None\<close> for the calls that the model does not follow: those where
  \<^verbatim>\<open>select\<close> is an option or option group inside a select, and those that assign the note
  to one.
\<close>

definition initThreadJsVersionSelector ::
  "selector_options option \<Rightarrow> document \<Rightarrow> document option" where
  "initThreadJsVersionSelector options doc =
     (case options of
        None \<Rightarrow>
          Some (doc\<lparr>console := console doc @
                       [''[ThreadJS] initThreadJsVersionSelector: missing options'']\<rparr>)
      | Some opts \<Rightarrow>
          if selectId opts = [] then
            Some (doc\<lparr>console := console doc @
                         [''[ThreadJS] initThreadJsVersionSelector: missing options'']\<rparr>)
          else
            (case getElementById (elements doc) (selectId opts) of
               None \<Rightarrow>
                 Some (doc\<lparr>console := console doc @
                              [''[ThreadJS] version select element not found: '' @ selectId opts]\<rparr>)
             | Some Nested \<Rightarrow> None
             | Some (Listed select) \<Rightarrow>
                 let noteEl =
                       (case noteId opts of
                          None \<Rightarrow> None
                        | Some nid \<Rightarrow>
                            if nid = [] then None
                            else map_option (Pair nid) (getElementById (elements doc) nid));
                     currentPath = strip_trailing_slashes (pathname doc);
                     (select1, currentIndex) =
                        populate (pageKey opts) currentPath VERSION_CONFIG 0 (select, 0);
                     select2 = set_selectedIndex (int currentIndex) select1;
                     elements1 = AList.update (selectId opts) select2 (elements doc);
                     elements2 =
                       (case (noteEl, nth_opt VERSION_CONFIG currentIndex) of
                          (Some (nid, found), Some currentVersion) \<Rightarrow>
                            if vnote currentVersion = [] then Some elements1
                            else (case found of
                                    Nested \<Rightarrow> None
                                  | Listed el \<Rightarrow>
                                      Some (AList.map_entry nid
                                              (set_textContent (vnote currentVersion)) elements1))
                        | _ \<Rightarrow> Some elements1)
                 in map_option
                      (\<lambda>els. doc\<lparr>elements := els,
                                  change_listeners :=
                                    change_listeners doc @ [(selectId opts, pageKey opts)]\<rparr>)
                      elements2))"

text \<open>
  The change listener, for the select it was registered on and the page key it closed over.
  \<^verbatim>\<open>window.location.href = target\<close> is recorded as the string assigned.
\<close>

definition on_change :: "page_key \<Rightarrow> select_el \<Rightarrow> document \<Rightarrow> document" where
  "on_change pk select doc =
     (let selectedId = select_value select in
      case find (\<lambda>v. vid v = selectedId) VERSION_CONFIG of
        None \<Rightarrow> doc
      | Some version \<Rightarrow>
          (case map_of (pages version) pk of
             None \<Rightarrow> doc
           | Some target \<Rightarrow> if target = [] then doc else doc\<lparr>href_assigned := Some target\<rparr>))"

text \<open>
  The spec's reading of the match, for comparison: the entry's page path, prefixed with a
  slash and stripped of trailing slashes, is a suffix of the stripped location path.
\<close>

definition path_matches :: "page_key \<Rightarrow> string \<Rightarrow> version_entry \<Rightarrow> bool" where
  "path_matches pk P v =
     (case map_of (pages v) pk of
        None \<Rightarrow> False
      | Some p \<Rightarrow> p \<noteq> [] \<and> suffix (strip_trailing_slashes (''/'' @ p)) (strip_trailing_slashes P))"

definition matching_indices :: "page_key \<Rightarrow> string \<Rightarrow> nat list" where
  "matching_indices pk P =
     filter (\<lambda>i. path_matches pk P (VERSION_CONFIG ! i)) [0..<length VERSION_CONFIG]"

text \<open>The index the selector is to show: the last matching entry, or 0 when none matches.\<close>

definition current_index :: "page_key \<Rightarrow> string \<Rightarrow> nat" where
  "current_index pk P = (case matching_indices pk P of [] \<Rightarrow> 0 | xs \<Rightarrow> last xs)"

text \<open>
  The usage of the file's header: a page of the v1.0.0 API documentation with an empty
  select and a note span, named by the options of the call. Then the same page reached
  with trailing slashes, a page that none of the table's paths ends, and options that name
  the select twice.
\<close>

definition example_select :: select_el where
  "example_select = \<lparr>sel_inner_ids = [], sel_options = [], selectedIndex = -1, sel_text = []\<rparr>"

definition example_note :: plain_el where
  "example_note = \<lparr>plain_children = [], plain_text = [], plain_selectedIndex = None\<rparr>"

definition example_doc :: document where
  "example_doc =
     \<lparr>elements = [(''versionSelect'', SelectEl example_select), (''versionNote'', PlainEl example_note)],
      pathname = ''/ThreadJS/v1.0.0/index.html'', href_assigned = None, console = [],
      change_listeners = []\<rparr>"

definition slashed_doc :: document where
  "slashed_doc = example_doc\<lparr>pathname := ''/ThreadJS/v1.0.0/index.html//''\<rparr>"

definition custom_doc :: document where
  "custom_doc = example_doc\<lparr>pathname := ''/ThreadJS/changelog.html''\<rparr>"

definition example_options :: selector_options where
  "example_options = \<lparr>selectId = ''versionSelect'', noteId = Some ''versionNote'', pageKey = Api\<rparr>"

definition aliased_options :: selector_options where
  "aliased_options = \<lparr>selectId = ''versionSelect'', noteId = Some ''versionSelect'', pageKey = Api\<rparr>"

definition chosen_select :: select_el where
  "chosen_select =
     \<lparr>sel_inner_ids = [],
      sel_options = [(''main'', ''main (latest)''), (''v1.0.0'', ''v1.0.0'')], selectedIndex = 1,
      sel_text = []\<rparr>"

definition stale_select :: select_el where
  "stale_select =
     \<lparr>sel_inner_ids = [], sel_options = [(''v0.9.0'', ''v0.9.0'')], selectedIndex = 0,
      sel_text = []\<rparr>"

section \<open>JavaScript values\<close>

text \<open>
  The values a script can hold, as far as the mods look at them: the primitives, functions
  (\<open>JFun\<close>), arrays, and objects as the list of their own enumerable properties. Finite
  numbers are reals and \<open>JNaN\<close> stands apart (the infinities are left out); \<open>JBigInt\<close> is
  the one primitive \<^verbatim>\<open>JSON.stringify\<close> refuses.
\<close>

datatype jsval =
    JUndefined
  | JNull
  | JBool bool
  | JNum real
  | JNaN
  | JStr string
  | JBigInt int
  | JFun
  | JArr "jsval list"
  | JObj "(string \<times> jsval) list"

text \<open>ToBoolean: what \<^verbatim>\<open>if (v)\<close>, \<^verbatim>\<open>!v\<close> and \<^verbatim>\<open>v || d\<close> test.\<close>

fun truthy :: "jsval \<Rightarrow> bool" where
  "truthy JUndefined = False"
| "truthy JNull = False"
| "truthy (JBool b) = b"
| "truthy (JNum r) = (r \<noteq> 0)"
| "truthy JNaN = False"
| "truthy (JStr s) = (s \<noteq> [])"
| "truthy (JBigInt n) = (n \<noteq> 0)"
| "truthy JFun = True"
| "truthy (JArr xs) = True"
| "truthy (JObj ps) = True"

datatype js_exn = TypeError | SyntaxError

definition exn_text :: "js_exn \<Rightarrow> string" where
  "exn_text e = (case e of TypeError \<Rightarrow> ''TypeError'' | SyntaxError \<Rightarrow> ''SyntaxError'')"

subsection \<open>JSON.parse(JSON.stringify(v))\<close>

text \<open>
  \<^verbatim>\<open>JSON.stringify\<close> throws a TypeError on a BigInt anywhere in the value. It returns
  \<^verbatim>\<open>undefined\<close> for \<^verbatim>\<open>undefined\<close> and for a function, and \<^verbatim>\<open>JSON.parse(undefined)\<close> then
  throws a SyntaxError. Inside an object such a property is left out, inside an array it
  becomes \<^verbatim>\<open>null\<close>; \<^verbatim>\<open>NaN\<close> becomes \<^verbatim>\<open>null\<close>. Everything else reads back as it was written.
\<close>

definition dropped :: "jsval \<Rightarrow> bool" where
  "dropped v = (v = JUndefined \<or> v = JFun)"

fun has_bigint :: "jsval \<Rightarrow> bool" where
  "has_bigint (JBigInt n) = True"
| "has_bigint (JArr xs) = list_ex has_bigint xs"
| "has_bigint (JObj ps) = list_ex (\<lambda>(k, v). has_bigint v) ps"
| "has_bigint v = False"

fun json_clean :: "jsval \<Rightarrow> jsval" where
  "json_clean JNaN = JNull"
| "json_clean (JArr xs) = JArr (map (\<lambda>x. if dropped x then JNull else json_clean x) xs)"
| "json_clean (JObj ps) =
     JObj (map (\<lambda>(k, v). (k, json_clean v)) (filter (\<lambda>(k, v). \<not> dropped v) ps))"
| "json_clean v = v"

definition json_roundtrip :: "jsval \<Rightarrow> js_exn + jsval" where
  "json_roundtrip v =
     (if has_bigint v then Inl TypeError
      else if dropped v then Inl SyntaxError
      else Inr (json_clean v))"

subsection \<open>Property lookup\<close>

text \<open>
  The mappings of the mods are ordinary objects (\<^verbatim>\<open>{}\<close>, or what \<^verbatim>\<open>JSON.parse\<close> built), so
  \<^verbatim>\<open>obj[key]\<close> finds an own property first and the members of \<^verbatim>\<open>Object.prototype\<close> next.
  What is found there is a built-in function (for \<^verbatim>\<open>__proto__\<close>, the prototype object), and
  is truthy.
\<close>

definition object_prototype_keys :: "string list" where
  "object_prototype_keys =
     [''constructor'', ''hasOwnProperty'', ''isPrototypeOf'', ''propertyIsEnumerable'',
      ''toLocaleString'', ''toString'', ''valueOf'', ''__proto__'',
      ''__defineGetter__'', ''__defineSetter__'', ''__lookupGetter__'', ''__lookupSetter__'']"

datatype 'v property = Own 'v | Inherited | Absent

definition lookup_prop :: "(string \<times> 'v) list \<Rightarrow> string \<Rightarrow> 'v property" where
  "lookup_prop obj k =
     (case map_of obj k of
        Some v \<Rightarrow> Own v
      | None \<Rightarrow> if k \<in> set object_prototype_keys then Inherited else Absent)"

text \<open>The value \<^verbatim>\<open>obj[key]\<close> of a mapping whose own values are \<open>jsval\<close>s, and its truth.\<close>

definition prop_val :: "jsval property \<Rightarrow> jsval" where
  "prop_val p = (case p of Own v \<Rightarrow> v | Inherited \<Rightarrow> JFun | Absent \<Rightarrow> JUndefined)"

text \<open>
  \<^verbatim>\<open>obj[key] = v\<close> for a primitive \<open>v\<close>: an own property is written or created, except under
  \<^verbatim>\<open>__proto__\<close>, whose inherited setter ignores a primitive.
\<close>

definition assign_primitive :: "string \<Rightarrow> 'v \<Rightarrow> (string \<times> 'v) list \<Rightarrow> (string \<times> 'v) list" where
  "assign_primitive k v obj =
     (if k = ''__proto__'' \<and> map_of obj k = None then obj else AList.update k v obj)"

subsection \<open>Printing numbers\<close>

fun show_nat :: "nat \<Rightarrow> string" where
  "show_nat n =
     (if n < 10 then [''0123456789'' ! n]
      else show_nat (n div 10) @ [''0123456789'' ! (n mod 10)])"

declare show_nat.simps [simp del]

definition show_int :: "int \<Rightarrow> string" where
  "show_int i = (if i < 0 then ''-'' @ show_nat (nat (- i)) else show_nat (nat i))"

subsection \<open>Integer arithmetic\<close>

text \<open>
  \<^verbatim>\<open>a % b\<close> on integers: the remainder takes the sign of the dividend.
  \<^verbatim>\<open>Math.floor(a / b)\<close> is \<open>a div b\<close>.
\<close>

definition js_rem :: "int \<Rightarrow> int \<Rightarrow> int" where
  "js_rem a b = sgn a * (\<bar>a\<bar> mod \<bar>b\<bar>)"

section \<open>The host API\<close>

text \<open>The calls a handler makes into the host, in call order.\<close>

datatype effect =
    Log string
  | Reply string
  | SaveData string jsval
  | GiveItem string string nat
  | GetPlayer string
  | SpawnParticle string real real real nat
  | PlaySound string real real real real real
  | TeleportPlayer string real real real
  | RegisterCommand string
  | RegisterListener string
  | BuiltinWrite string
  | SendFeedback string
  | SendError string
  | GiveItemStack string string nat
  | WorldPlaySound string string
  | WorldSpawnParticles string real real real nat
  | EntityTeleport string real real real


definition replies_of :: "effect list \<Rightarrow> string list" where
  "replies_of effs = concat (map (\<lambda>e. case e of Reply m \<Rightarrow> [m] | _ \<Rightarrow> []) effs)"

definition grants_of :: "effect list \<Rightarrow> (string \<times> string \<times> nat) list" where
  "grants_of effs =
     concat (map (\<lambda>e. case e of GiveItem p i n \<Rightarrow> [(p, i, n)] | GiveItemStack p i n \<Rightarrow> [(p, i, n)] | _ \<Rightarrow> []) effs)"

text \<open>
  \<^verbatim>\<open>CommandContext\<close>: whether \<^verbatim>\<open>ctx.player\<close> is set, the sender's name, and the parsed
  arguments the commands read. \<^verbatim>\<open>PlayerInfo\<close> is what \<^verbatim>\<open>api.getPlayer\<close> answers, read with
  \<^verbatim>\<open>.get("x")\<close> or \<^verbatim>\<open>.x\<close> alike.
\<close>

record command_ctx =
  has_player :: bool
  ctx_playerName :: string
  arg_player :: "string option"
  arg_action :: "string option"

record player_info =
  info_x :: real
  info_y :: real
  info_z :: real
  info_dimensionId :: string
  info_yaw :: "real option"
  info_pitch :: "real option"

section \<open>spawn-kit.js\<close>

subsection \<open>onInitialize: loading the mapping\<close>

text \<open>
  \<^verbatim>\<open>try { received = JSON.parse(JSON.stringify(receivedRaw)) || {}; }
  catch (e) { api.log("... Failed to parse ...: " + e); received = {}; }\<close>
  The same statement loads \<^verbatim>\<open>activity\<close> and \<^verbatim>\<open>homes\<close>; only the log prefix differs. The
  result is the log lines written and the value the variable holds afterwards.
\<close>

definition load_mapping :: "string \<Rightarrow> jsval \<Rightarrow> effect list \<times> jsval" where
  "load_mapping failure_prefix raw =
     (case json_roundtrip raw of
        Inl e \<Rightarrow> ([Log (failure_prefix @ exn_text e)], JObj [])
      | Inr v \<Rightarrow> ([], if truthy v then v else JObj []))"

text \<open>\<open>raw\<close> is what \<^verbatim>\<open>api.loadData("kit_received", {})\<close> returned.\<close>

definition spawn_kit_onInitialize :: "jsval \<Rightarrow> effect list \<times> jsval" where
  "spawn_kit_onInitialize raw =
     (let (logged, received) = load_mapping ''[SpawnKit] Failed to parse received data: '' raw
      in ([Log ''[SpawnKit] Loading Spawn Kit mod...''] @ logged @
          [RegisterCommand ''kit'', RegisterCommand ''kitreset'', Log ''Spawn Kit mod loaded!''],
          received))"

subsection \<open>/kit\<close>

definition starterKit :: "(string \<times> nat) list" where
  "starterKit =
     [(''minecraft:stone_pickaxe'', 1), (''minecraft:stone_axe'', 1),
      (''minecraft:stone_shovel'', 1), (''minecraft:stone_sword'', 1),
      (''minecraft:bread'', 16), (''minecraft:torch'', 32), (''minecraft:oak_planks'', 64)]"

text \<open>\<^verbatim>\<open>s.replace(pat, rep)\<close> with a string pattern: the first occurrence only.\<close>

fun replace_first :: "string \<Rightarrow> string \<Rightarrow> string \<Rightarrow> string" where
  "replace_first pat rep [] = (if pat = [] then rep else [])"
| "replace_first pat rep (c # cs) =
     (if prefix pat (c # cs) then rep @ drop (length pat) (c # cs)
      else c # replace_first pat rep cs)"

text \<open>\<^verbatim>\<open>itemId.replace("minecraft:", "").replace(/_/g, " ")\<close>\<close>

definition itemName :: "string \<Rightarrow> string" where
  "itemName itemId =
     map (\<lambda>c. if c = CHR ''_'' then CHR '' '' else c) (replace_first ''minecraft:'' [] itemId)"

text \<open>The loop over \<^verbatim>\<open>starterKit\<close>: one \<^verbatim>\<open>giveItem\<close> and one reply per stack.\<close>

fun give_items :: "string \<Rightarrow> (string \<times> nat) list \<Rightarrow> effect list" where
  "give_items playerName [] = []"
| "give_items playerName ((itemId, item_count) # items) =
     [GiveItem playerName itemId item_count,
      Reply (''+ '' @ show_nat item_count @ ''x '' @ itemName itemId)]
     @ give_items playerName items"

text \<open>
  The mapping \<^verbatim>\<open>received\<close> is the list of its own properties. \<open>now\<close> is the reading of
  \<^verbatim>\<open>Date.now()\<close>, \<open>playerInfo\<close> the answer of \<^verbatim>\<open>api.getPlayer\<close>, and \<open>toLocaleString\<close> the
  host's rendering of \<^verbatim>\<open>new Date(v).toLocaleString()\<close>.
\<close>

definition kit_execute ::
  "(jsval \<Rightarrow> string) \<Rightarrow> int \<Rightarrow> player_info \<Rightarrow> command_ctx \<Rightarrow> (string \<times> jsval) list
     \<Rightarrow> effect list \<times> (string \<times> jsval) list" where
  "kit_execute toLocaleString now playerInfo ctx received =
     (if \<not> has_player ctx then ([Reply ''Only players can use this command!''], received)
      else
        let playerName = ctx_playerName ctx in
        if truthy (prop_val (lookup_prop received playerName)) then
          ([Reply ''You've already received your starter kit!'',
            Reply (''Received on: '' @ toLocaleString (prop_val (lookup_prop received playerName)))],
           received)
        else
          let received' = assign_primitive playerName (JNum (of_int now)) received;
              x = info_x playerInfo; y = info_y playerInfo; z = info_z playerInfo
          in ([Reply ''=== Starter Kit ===''] @ give_items playerName starterKit @
              [SaveData ''kit_received'' (JObj received'),
               GetPlayer playerName,
               SpawnParticle ''minecraft:happy_villager'' x (y + 1) z 50,
               PlaySound ''minecraft:entity.player.levelup'' x y z 1 1,
               Reply ''Starter kit received!''],
              received'))"

subsection \<open>/kitreset\<close>

text \<open>\<open>targetPlayer\<close> is \<^verbatim>\<open>ctx.args.player\<close>, a required argument.\<close>

definition kitreset_execute ::
  "string \<Rightarrow> (string \<times> jsval) list \<Rightarrow> effect list \<times> (string \<times> jsval) list" where
  "kitreset_execute targetPlayer received =
     (if \<not> truthy (prop_val (lookup_prop received targetPlayer)) then
        ([Reply (targetPlayer @ '' hasn't received a kit yet'')], received)
      else
        let received' = AList.delete targetPlayer received
        in ([SaveData ''kit_received'' (JObj received'),
             Reply (''Reset kit status for '' @ targetPlayer)],
            received'))"

subsection \<open>Runs of the mod\<close>

text \<open>
  The command invocations the host can make, and the run of a sequence of them from a
  mapping. A run collects, besides the mapping, the trace of all effects.
\<close>

datatype kit_command =
    Kit int player_info command_ctx
  | KitReset string

fun kit_step ::
  "(jsval \<Rightarrow> string) \<Rightarrow> kit_command \<Rightarrow> (string \<times> jsval) list \<Rightarrow> effect list \<times> (string \<times> jsval) list" where
  "kit_step loc (Kit now info ctx) received = kit_execute loc now info ctx received"
| "kit_step loc (KitReset target) received = kitreset_execute target received"

fun kit_run ::
  "(jsval \<Rightarrow> string) \<Rightarrow> kit_command list \<Rightarrow> (string \<times> jsval) list \<Rightarrow> effect list \<times> (string \<times> jsval) list" where
  "kit_run loc [] received = ([], received)"
| "kit_run loc (c # cs) received =
     (let (effs, received') = kit_step loc c received;
          (effs', received'') = kit_run loc cs received'
      in (effs @ effs', received''))"

text \<open>
  For counting in a run: how often the kit was handed to a player (each hand-out holds
  exactly one stone pickaxe) and how often \<^verbatim>\<open>/kitreset\<close> named the player; the test
  \<^verbatim>\<open>received[playerName]\<close>; and the runs in which no \<^verbatim>\<open>Date.now()\<close> reading is 0.
\<close>

definition kits_given :: "string \<Rightarrow> effect list \<Rightarrow> nat" where
  "kits_given p effs = count_list effs (GiveItem p ''minecraft:stone_pickaxe'' 1)"

definition resets_of :: "string \<Rightarrow> kit_command list \<Rightarrow> nat" where
  "resets_of p cs = count_list cs (KitReset p)"

definition has_kit :: "(string \<times> jsval) list \<Rightarrow> string \<Rightarrow> bool" where
  "has_kit received p = truthy (prop_val (lookup_prop received p))"

fun clock_nonzero :: "kit_command \<Rightarrow> bool" where
  "clock_nonzero (Kit now info ctx) = (now \<noteq> 0)"
| "clock_nonzero (KitReset target) = True"

text \<open>
  The spec's reading of the keys of \<^verbatim>\<open>received\<close>, for comparison: a name is held when a
  player of that name invoked \<^verbatim>\<open>/kit\<close> and no later \<^verbatim>\<open>/kitreset\<close> named it. The members of
  \<^verbatim>\<open>Object.prototype\<close> are set apart: such a name is never stored.
\<close>

fun holders :: "kit_command list \<Rightarrow> string set \<Rightarrow> string set" where
  "holders [] S = S"
| "holders (Kit now info ctx # cs) S =
     holders cs (if has_player ctx \<and> ctx_playerName ctx \<notin> set object_prototype_keys
                 then insert (ctx_playerName ctx) S else S)"
| "holders (KitReset target # cs) S = holders cs (S - {target})"

text \<open>The mappings the mod itself builds: every entry truthy, no key a prototype member.\<close>

definition well_kept :: "(string \<times> jsval) list \<Rightarrow> bool" where
  "well_kept received = (\<forall>(k, v) \<in> set received. truthy v \<and> k \<notin> set object_prototype_keys)"

text \<open>A player in the overworld, and that player's \<^verbatim>\<open>/kit\<close> invocation at time 1700000000000.\<close>

definition steve_info :: player_info where
  "steve_info =
     \<lparr>info_x = 10.5, info_y = 64, info_z = -3.5, info_dimensionId = ''minecraft:overworld'',
      info_yaw = Some 90, info_pitch = None\<rparr>"

definition steve_ctx :: command_ctx where
  "steve_ctx = \<lparr>has_player = True, ctx_playerName = ''Steve'', arg_player = None, arg_action = None\<rparr>"

definition console_ctx :: command_ctx where
  "console_ctx = \<lparr>has_player = False, ctx_playerName = ''Server'', arg_player = None, arg_action = None\<rparr>"

definition steve_kit :: kit_command where
  "steve_kit = Kit 1700000000000 steve_info steve_ctx"

definition example_locale :: "jsval \<Rightarrow> string" where
  "example_locale v = ''11/14/2023, 10:13:20 PM''"

definition example_kit_run :: "kit_command list" where
  "example_kit_run = [steve_kit, steve_kit, KitReset ''Steve'', steve_kit]"

section \<open>player-tracker.js\<close>

subsection \<open>The player-tracker mod\<close>

text \<open>
  The entries of \<^verbatim>\<open>activity\<close> are \<^verbatim>\<open>PlayerActivity\<close> objects, as the JSDoc types them and
  as the mod itself writes them; \<open>None\<close> is \<^verbatim>\<open>null\<close>.
\<close>

record PlayerActivity =
  commandCount :: int
  lastCommand :: "string option"
  lastActive :: "int option"
  firstSeen :: int

record command_event =
  ev_playerName :: string
  ev_command :: string

definition activity_json :: "PlayerActivity \<Rightarrow> jsval" where
  "activity_json a =
     JObj [(''commandCount'', JNum (of_int (commandCount a))),
           (''lastCommand'', case lastCommand a of None \<Rightarrow> JNull | Some c \<Rightarrow> JStr c),
           (''lastActive'', case lastActive a of None \<Rightarrow> JNull | Some t \<Rightarrow> JNum (of_int t)),
           (''firstSeen'', JNum (of_int (firstSeen a)))]"

definition activity_map_json :: "(string \<times> PlayerActivity) list \<Rightarrow> jsval" where
  "activity_map_json activity = JObj (map (\<lambda>(k, a). (k, activity_json a)) activity)"

definition player_tracker_onInitialize :: "jsval \<Rightarrow> effect list \<times> jsval" where
  "player_tracker_onInitialize raw =
     (let (logged, activity) = load_mapping ''[PlayerTracker] Failed to parse activity: '' raw
      in ([Log ''[PlayerTracker] Loading Player Tracker mod...''] @ logged @
          [RegisterListener ''onCommandExecute'', RegisterCommand ''activity'',
           RegisterCommand ''leaderboard'', Log ''Player Tracker mod loaded!''],
          activity))"

text \<open>
  The listener of \<^verbatim>\<open>api.onCommandExecute\<close>. \<open>now_seen\<close> is the clock reading taken for
  \<^verbatim>\<open>firstSeen\<close>, \<open>now_active\<close> the one for \<^verbatim>\<open>lastActive\<close>. The three cases are those of
  \<^verbatim>\<open>activity[playerName]\<close>:
  \<^item> absent (falsy): a fresh entry is stored, and the three updates go to it;
  \<^item> an own entry: the three updates go to it;
  \<^item> found on the prototype (truthy): no entry is stored, and the three updates are written
    to the built-in function found there (\<open>BuiltinWrite\<close>); the mapping is as it was.
  In each case \<^verbatim>\<open>saveData\<close> follows. For the name \<^verbatim>\<open>__proto__\<close> the updates would go to
  \<^verbatim>\<open>Object.prototype\<close> itself and change every later lookup; that run is not modelled
  (\<open>None\<close>).
\<close>

definition bump :: "string \<Rightarrow> int \<Rightarrow> PlayerActivity \<Rightarrow> PlayerActivity" where
  "bump command now_active a =
     a\<lparr>commandCount := commandCount a + 1, lastCommand := Some command, lastActive := Some now_active\<rparr>"

definition onCommandExecute ::
  "int \<Rightarrow> int \<Rightarrow> command_event \<Rightarrow> (string \<times> PlayerActivity) list
     \<Rightarrow> (effect list \<times> (string \<times> PlayerActivity) list) option" where
  "onCommandExecute now_seen now_active event activity =
     (let playerName = ev_playerName event in
      case lookup_prop activity playerName of
        Absent \<Rightarrow>
          let fresh = \<lparr>commandCount = 0, lastCommand = None, lastActive = None, firstSeen = now_seen\<rparr>;
              activity' = AList.update playerName (bump (ev_command event) now_active fresh) activity
          in Some ([SaveData ''player_activity'' (activity_map_json activity')], activity')
      | Own a \<Rightarrow>
          let activity' = AList.update playerName (bump (ev_command event) now_active a) activity
          in Some ([SaveData ''player_activity'' (activity_map_json activity')], activity')
      | Inherited \<Rightarrow>
          if playerName = ''__proto__'' then None
          else Some ([BuiltinWrite playerName,
                      SaveData ''player_activity'' (activity_map_json activity)], activity))"

definition timeStr :: "int \<Rightarrow> string" where
  "timeStr timeAgo =
     (if timeAgo < 60 then show_int timeAgo @ ''s ago''
      else if timeAgo < 3600 then show_int (timeAgo div 60) @ ''m ago''
      else if timeAgo < 86400 then show_int (timeAgo div 3600) @ ''h ago''
      else show_int (timeAgo div 86400) @ ''d ago'')"

text \<open>\<^verbatim>\<open>ctx.args.player || ctx.playerName\<close>\<close>

definition activity_target :: "command_ctx \<Rightarrow> string" where
  "activity_target ctx =
     (case arg_player ctx of
        None \<Rightarrow> ctx_playerName ctx
      | Some p \<Rightarrow> if p = [] then ctx_playerName ctx else p)"

text \<open>
  \<^verbatim>\<open>/activity\<close>. \<open>now\<close> is \<^verbatim>\<open>Date.now()\<close>, \<open>toLocaleDateString\<close> the host's rendering of a
  date. A target found on the prototype makes the handler print the properties of a
  built-in function; that output is not modelled (\<open>None\<close>).
\<close>

definition activity_execute ::
  "(int \<Rightarrow> string) \<Rightarrow> int \<Rightarrow> command_ctx \<Rightarrow> (string \<times> PlayerActivity) list \<Rightarrow> effect list option" where
  "activity_execute toLocaleDateString now ctx activity =
     (let targetPlayer = activity_target ctx
      in case lookup_prop activity targetPlayer of
           Absent \<Rightarrow> Some [Reply (''No activity data for '' @ targetPlayer)]
         | Inherited \<Rightarrow> None
         | Own data \<Rightarrow>
             Some ([Reply (''=== Activity: '' @ targetPlayer @ '' ===''),
                    Reply (''Commands run: '' @ show_int (commandCount data))]
                   @ (case lastCommand data of
                        None \<Rightarrow> []
                      | Some c \<Rightarrow> if c = [] then [] else [Reply (''Last command: '' @ c)])
                   @ (case lastActive data of
                        None \<Rightarrow> []
                      | Some t \<Rightarrow>
                          if t = 0 then []
                          else [Reply (''Last active: '' @ timeStr ((now - t) div 1000))])
                   @ (if firstSeen data = 0 then []
                      else [Reply (''First seen: '' @ toLocaleDateString (firstSeen data))])))"

text \<open>A run of command-execute events from a mapping; \<open>None\<close> once \<^verbatim>\<open>__proto__\<close> was met.\<close>

fun tracker_run ::
  "(int \<times> int \<times> command_event) list \<Rightarrow> (string \<times> PlayerActivity) list
     \<Rightarrow> (string \<times> PlayerActivity) list option" where
  "tracker_run [] activity = Some activity"
| "tracker_run ((now_seen, now_active, event) # es) activity =
     (case onCommandExecute now_seen now_active event activity of
        None \<Rightarrow> None
      | Some (effs, activity') \<Rightarrow> tracker_run es activity')"

subsection \<open>The teleport-home mod\<close>

record home =
  home_x :: real
  home_y :: real
  home_z :: real
  dimension :: string
  yaw :: real
  pitch :: real

definition home_json :: "home \<Rightarrow> jsval" where
  "home_json h =
     JObj [(''x'', JNum (home_x h)), (''y'', JNum (home_y h)), (''z'', JNum (home_z h)),
           (''dimension'', JStr (dimension h)), (''yaw'', JNum (yaw h)), (''pitch'', JNum (pitch h))]"

definition homes_json :: "(string \<times> home) list \<Rightarrow> jsval" where
  "homes_json homes = JObj (map (\<lambda>(k, h). (k, home_json h)) homes)"

definition teleport_home_onInitialize :: "jsval \<Rightarrow> effect list \<times> jsval" where
  "teleport_home_onInitialize raw =
     (let (logged, homes) = load_mapping ''[TeleportHome] Failed to parse homes: '' raw
      in ([Log ''[TeleportHome] Loading Teleport Home mod...''] @ logged @
          [RegisterCommand ''home'', Log ''Teleport Home mod loaded!''],
          homes))"

text \<open>\<^verbatim>\<open>s.toLowerCase()\<close> on ASCII text.\<close>

definition toLowerCase :: "string \<Rightarrow> string" where
  "toLowerCase s =
     map (\<lambda>c. if 65 \<le> (of_char c :: nat) \<and> (of_char c :: nat) \<le> 90
               then char_of ((of_char c :: nat) + 32) else c) s"

text \<open>\<^verbatim>\<open>ctx.args.action ? ctx.args.action.toLowerCase() : "tp"\<close>\<close>

definition home_action :: "command_ctx \<Rightarrow> string" where
  "home_action ctx =
     (case arg_action ctx of
        None \<Rightarrow> ''tp''
      | Some a \<Rightarrow> if a = [] then ''tp'' else toLowerCase a)"

text \<open>
  \<^verbatim>\<open>/home [set|delete|list]\<close>. \<open>playerInfo\<close> is the answer of \<^verbatim>\<open>api.getPlayer\<close>. Two runs are
  not modelled (\<open>None\<close>): \<^verbatim>\<open>set\<close> by a player named \<^verbatim>\<open>__proto__\<close>, which replaces the
  prototype of \<^verbatim>\<open>homes\<close>, and \<^verbatim>\<open>list\<close> or the teleport for a name found on the prototype,
  which read the coordinates off a built-in function.
\<close>

definition home_execute ::
  "player_info \<Rightarrow> command_ctx \<Rightarrow> (string \<times> home) list \<Rightarrow> (effect list \<times> (string \<times> home) list) option" where
  "home_execute playerInfo ctx homes =
     (if \<not> has_player ctx then Some ([Reply ''Only players can use this command!''], homes)
      else
        let playerName = ctx_playerName ctx;
            action = home_action ctx
        in
        if action = ''set'' then
          (if playerName = ''__proto__'' \<and> map_of homes playerName = None then None
           else
             let x = info_x playerInfo; y = info_y playerInfo; z = info_z playerInfo;
                 homes' = AList.update playerName
                            \<lparr>home_x = x, home_y = y, home_z = z,
                             dimension = info_dimensionId playerInfo,
                             yaw = (case info_yaw playerInfo of None \<Rightarrow> 0 | Some r \<Rightarrow> r),
                             pitch = (case info_pitch playerInfo of None \<Rightarrow> 0 | Some r \<Rightarrow> r)\<rparr>
                            homes
             in Some ([GetPlayer playerName,
                       SaveData ''homes'' (homes_json homes'),
                       Reply (''Home set at '' @ show_int \<lfloor>x\<rfloor> @ '', '' @ show_int \<lfloor>y\<rfloor> @ '', ''
                              @ show_int \<lfloor>z\<rfloor>),
                       SpawnParticle ''minecraft:happy_villager'' x (y + 1) z 20,
                       PlaySound ''minecraft:block.note_block.pling'' x y z 1 1.5],
                      homes'))
        else if action = ''delete'' then
          (case lookup_prop homes playerName of
             Absent \<Rightarrow> Some ([Reply ''You don't have a home set!''], homes)
           | _ \<Rightarrow>
               let homes' = AList.delete playerName homes
               in Some ([SaveData ''homes'' (homes_json homes'), Reply ''Home deleted!''], homes'))
        else if action = ''list'' then
          (case lookup_prop homes playerName of
             Absent \<Rightarrow> Some ([Reply ''You don't have a home set!''], homes)
           | Inherited \<Rightarrow> None
           | Own home \<Rightarrow>
               Some ([Reply ''=== Your Home ==='',
                      Reply (''Location: '' @ show_int \<lfloor>home_x home\<rfloor> @ '', ''
                             @ show_int \<lfloor>home_y home\<rfloor> @ '', '' @ show_int \<lfloor>home_z home\<rfloor>),
                      Reply (''Dimension: '' @ dimension home)],
                     homes))
        else
          (case lookup_prop homes playerName of
             Absent \<Rightarrow> Some ([Reply ''You don't have a home set! Use /home set''], homes)
           | Inherited \<Rightarrow> None
           | Own home \<Rightarrow>
               let currentX = info_x playerInfo; currentY = info_y playerInfo;
                   currentZ = info_z playerInfo
               in Some ([GetPlayer playerName,
                         SpawnParticle ''minecraft:portal'' currentX (currentY + 1) currentZ 50,
                         TeleportPlayer playerName (home_x home) (home_y home) (home_z home),
                         SpawnParticle ''minecraft:portal'' (home_x home) (home_y home + 1) (home_z home) 50,
                         PlaySound ''minecraft:entity.enderman.teleport''
                           (home_x home) (home_y home) (home_z home) 1 1,
                         Reply ''Teleported home!''],
                        homes)))"


definition constructor_event :: command_event where
  "constructor_event = \<lparr>ev_playerName = ''constructor'', ev_command = ''/help''\<rparr>"


section \<open>The sample mod: main.js\<close>

subsection \<open>Delayed tasks\<close>

text \<open>
  A task is \<^verbatim>\<open>{ tickTarget, action }\<close>. The action is a closure over host objects: run in a
  host world \<open>'w\<close> it leaves a world behind and either returns (\<open>None\<close>) or throws
  (\<open>Some e\<close>, with \<open>e\<close> the text \<^verbatim>\<open>String(e)\<close>). The actions the mod schedules call into the
  host only; an action does not reach \<^verbatim>\<open>scheduledTasks\<close> or \<^verbatim>\<open>tickCounter\<close>.

  Besides the two variables of the source the state holds the host world, the lines
  written by \<^verbatim>\<open>LOGGER.warn\<close>, and the trace of the tasks whose action was called, in call
  order.
\<close>

record 'w task =
  tickTarget :: int
  action :: "'w \<Rightarrow> 'w \<times> string option"

record 'w tick_state =
  tickCounter :: int
  scheduledTasks :: "'w task list"
  world :: 'w
  warned :: "string list"
  executed :: "'w task list"

definition scheduleTask :: "int \<Rightarrow> ('w \<Rightarrow> 'w \<times> string option) \<Rightarrow> 'w tick_state \<Rightarrow> 'w tick_state" where
  "scheduleTask delayTicks act s =
     s\<lparr>scheduledTasks :=
         scheduledTasks s @ [\<lparr>tickTarget = tickCounter s + delayTicks, action = act\<rparr>]\<rparr>"

text \<open>\<^verbatim>\<open>list.remove(i)\<close> of a \<^verbatim>\<open>java.util.ArrayList\<close>, for an index in range.\<close>

definition remove_at :: "nat \<Rightarrow> 'a list \<Rightarrow> 'a list" where
  "remove_at i xs = take i xs @ drop (Suc i) xs"

text \<open>
  \<^verbatim>\<open>try { task.action(); } catch (e) { LOGGER.warn("Scheduled task error: {}", String(e)); }\<close>
  on the world, the warnings and the call trace.
\<close>

definition run_action ::
  "'w task \<Rightarrow> 'w \<times> string list \<times> 'w task list \<Rightarrow> 'w \<times> string list \<times> 'w task list" where
  "run_action task h =
     (case h of (w, warnings, trace) \<Rightarrow>
        (case action task w of
           (w', None) \<Rightarrow> (w', warnings, trace @ [task])
         | (w', Some e) \<Rightarrow> (w', warnings @ [''Scheduled task error: '' @ e], trace @ [task])))"

text \<open>
  The \<^verbatim>\<open>while (i < scheduledTasks.size())\<close> loop of \<^verbatim>\<open>onEndTick\<close>, from scan index \<open>i\<close>:
  a due task is run and removed and the index stays; otherwise the index advances.
\<close>

function sweep ::
  "int \<Rightarrow> nat \<Rightarrow> 'w task list \<Rightarrow> 'w \<times> string list \<times> 'w task list
     \<Rightarrow> 'w task list \<times> 'w \<times> string list \<times> 'w task list" where
  "sweep tc i tasks h =
     (if i < length tasks then
        (let task = tasks ! i in
         if tc \<ge> tickTarget task then sweep tc i (remove_at i tasks) (run_action task h)
         else sweep tc (Suc i) tasks h)
      else (tasks, h))"
  by pat_completeness auto
termination
  by (relation "measure (\<lambda>(tc, i, tasks, h). length tasks - i)") (auto simp: remove_at_def)

declare sweep.simps [simp del]

text \<open>
  \<^verbatim>\<open>onEndTick\<close>. \<open>aura\<close> is what the particle burst of every 1200th tick does to the host
  world.
\<close>

definition onEndTick :: "('w \<Rightarrow> 'w) \<Rightarrow> 'w tick_state \<Rightarrow> 'w tick_state" where
  "onEndTick aura s =
     (let tc = tickCounter s + 1 in
      case sweep tc 0 (scheduledTasks s) (world s, warned s, executed s) of
        (tasks, w, warnings, trace) \<Rightarrow>
          \<lparr>tickCounter = tc, scheduledTasks = tasks,
           world = (if js_rem tc 1200 = 0 then aura w else w),
           warned = warnings, executed = trace\<rparr>)"

text \<open>The initial values of the variables, and runs of the two operations.\<close>

definition tick_init :: "'w \<Rightarrow> 'w tick_state" where
  "tick_init w = \<lparr>tickCounter = 0, scheduledTasks = [], world = w, warned = [], executed = []\<rparr>"

datatype 'w tick_event = Schedule int "'w \<Rightarrow> 'w \<times> string option" | EndTick

fun tick_step :: "('w \<Rightarrow> 'w) \<Rightarrow> 'w tick_event \<Rightarrow> 'w tick_state \<Rightarrow> 'w tick_state" where
  "tick_step aura (Schedule delayTicks act) s = scheduleTask delayTicks act s"
| "tick_step aura EndTick s = onEndTick aura s"

definition tick_run :: "('w \<Rightarrow> 'w) \<Rightarrow> 'w tick_event list \<Rightarrow> 'w tick_state \<Rightarrow> 'w tick_state" where
  "tick_run aura events s = fold (tick_step aura) events s"

text \<open>The tasks a run adds with \<^verbatim>\<open>scheduleTask\<close>, given the tick counter it starts from.\<close>

fun tasks_added :: "int \<Rightarrow> 'w tick_event list \<Rightarrow> 'w task list" where
  "tasks_added tc [] = []"
| "tasks_added tc (Schedule delayTicks act # es) =
     \<lparr>tickTarget = tc + delayTicks, action = act\<rparr> # tasks_added tc es"
| "tasks_added tc (EndTick # es) = tasks_added (tc + 1) es"

text \<open>
  For stating what a sweep does: a task is due at tick \<open>tc\<close> when its target is at or before
  it; \<open>run_due\<close> calls the actions of a list of tasks in order and returns the world left
  behind and the texts of the exceptions thrown.
\<close>

definition due :: "int \<Rightarrow> 'w task \<Rightarrow> bool" where
  "due tc task = (tickTarget task \<le> tc)"

fun run_due :: "'w task list \<Rightarrow> 'w \<Rightarrow> 'w \<times> string list" where
  "run_due [] w = (w, [])"
| "run_due (task # tasks) w =
     (case action task w of
        (w', r) \<Rightarrow>
          (case run_due tasks w' of
             (w'', es) \<Rightarrow> (w'', (case r of None \<Rightarrow> [] | Some e \<Rightarrow> [e]) @ es)))"

text \<open>
  Example actions over a world that is the list of host calls made so far, and a state in
  which two consecutive entries are due at the next tick, the first of them throwing.
\<close>

definition spawn_totem :: "string list \<Rightarrow> string list \<times> string option" where
  "spawn_totem w = (w @ [''spawnParticles TOTEM_OF_UNDYING''], None)"

definition send_tip :: "string list \<Rightarrow> string list \<times> string option" where
  "send_tip w = (w @ [''sendMessage Tip: Try /js help for sample commands!''], None)"

definition failing_action :: "string list \<Rightarrow> string list \<times> string option" where
  "failing_action w = (w, Some ''TypeError: player left'')"

definition example_tick_state :: "string list tick_state" where
  "example_tick_state =
     \<lparr>tickCounter = 19,
      scheduledTasks = [\<lparr>tickTarget = 20, action = failing_action\<rparr>,
                        \<lparr>tickTarget = 15, action = spawn_totem\<rparr>,
                        \<lparr>tickTarget = 100, action = send_tip\<rparr>],
      world = [], warned = [], executed = []\<rparr>"

definition example_events :: "string list tick_event list" where
  "example_events =
     [Schedule 1 failing_action, Schedule 1 spawn_totem, Schedule 3 send_tip, EndTick, EndTick]"

subsection \<open>Commands\<close>

text \<open>
  \<^verbatim>\<open>ctx.getSource().getPlayer()\<close> is \<^verbatim>\<open>null\<close> (\<open>None\<close>) when the sender is not a player.
  The maps are \<^verbatim>\<open>java.util.HashMap\<close>s: \<^verbatim>\<open>get\<close> answers \<^verbatim>\<open>null\<close> for a missing key. A handler
  returns the command's integer result, its effects and the state.
\<close>

record player =
  p_uuid :: string
  p_name :: string
  p_x :: real
  p_y :: real
  p_z :: real

record sample_state =
  playerData :: "(string \<times> string \<times> int) list"
  homeData :: "(string \<times> int \<times> int \<times> int) list"
  dailyClaims :: "(string \<times> int) list"

definition DAILY_COOLDOWN_MS :: int where
  "DAILY_COOLDOWN_MS = 5 * 60 * 1000"

definition formatDurationMs :: "int \<Rightarrow> string" where
  "formatDurationMs ms =
     (let totalSeconds = max 0 (ms div 1000);
          minutes = totalSeconds div 60;
          seconds = js_rem totalSeconds 60
      in if minutes > 0 then show_int minutes @ ''m '' @ show_int seconds @ ''s''
         else show_int seconds @ ''s'')"

text \<open>\<^verbatim>\<open>/js playtime\<close>; \<open>now\<close> is \<^verbatim>\<open>System.currentTimeMillis()\<close>.\<close>

definition js_playtime :: "int \<Rightarrow> player option \<Rightarrow> sample_state \<Rightarrow> int \<times> effect list \<times> sample_state" where
  "js_playtime now sender s =
     (case sender of
        None \<Rightarrow> (0, [SendError ''Players only!''], s)
      | Some player \<Rightarrow>
          (case map_of (playerData s) (p_uuid player) of
             None \<Rightarrow> (1, [], s)
           | Some (name, joinedAt) \<Rightarrow>
               let elapsed = now - joinedAt;
                   mins = elapsed div 60000;
                   secs = js_rem elapsed 60000 div 1000
               in (1, [SendFeedback (''Online for '' @ show_int mins @ ''m '' @ show_int secs @ ''s'')], s)))"

text \<open>\<^verbatim>\<open>/js kit\<close>, the diamond tier.\<close>

definition js_kit :: "player option \<Rightarrow> sample_state \<Rightarrow> int \<times> effect list \<times> sample_state" where
  "js_kit sender s =
     (case sender of
        None \<Rightarrow> (0, [], s)
      | Some player \<Rightarrow>
          (1, [GiveItemStack (p_uuid player) ''DIAMOND_SWORD'' 1,
               GiveItemStack (p_uuid player) ''DIAMOND_PICKAXE'' 1,
               GiveItemStack (p_uuid player) ''COOKED_BEEF'' 32,
               GiveItemStack (p_uuid player) ''TORCH'' 64,
               GiveItemStack (p_uuid player) ''OAK_PLANKS'' 64,
               WorldPlaySound (p_uuid player) ''ENTITY_ITEM_PICKUP'',
               SendFeedback ''Starter kit received!''], s))"

text \<open>The standalone \<^verbatim>\<open>/kit\<close>, the iron tier.\<close>

definition kit :: "player option \<Rightarrow> sample_state \<Rightarrow> int \<times> effect list \<times> sample_state" where
  "kit sender s =
     (case sender of
        None \<Rightarrow> (0, [], s)
      | Some player \<Rightarrow>
          (1, [GiveItemStack (p_uuid player) ''IRON_SWORD'' 1,
               GiveItemStack (p_uuid player) ''IRON_PICKAXE'' 1,
               GiveItemStack (p_uuid player) ''IRON_AXE'' 1,
               GiveItemStack (p_uuid player) ''BREAD'' 16,
               GiveItemStack (p_uuid player) ''TORCH'' 32,
               GiveItemStack (p_uuid player) ''OAK_PLANKS'' 64,
               GiveItemStack (p_uuid player) ''CRAFTING_TABLE'' 1,
               GiveItemStack (p_uuid player) ''FURNACE'' 1,
               WorldPlaySound (p_uuid player) ''ENTITY_ITEM_PICKUP'',
               WorldSpawnParticles ''HAPPY_VILLAGER'' (p_x player) (p_y player + 1) (p_z player) 15,
               SendFeedback ''Starter kit received!''], s))"

text \<open>\<^verbatim>\<open>/js home set|go|info|clear\<close>. A home is the \<^verbatim>\<open>BlockPos\<close> of the floored coordinates.\<close>

definition pos_text :: "int \<times> int \<times> int \<Rightarrow> string" where
  "pos_text pos = (case pos of (x, y, z) \<Rightarrow> show_int x @ '', '' @ show_int y @ '', '' @ show_int z)"

definition js_home_set :: "player option \<Rightarrow> sample_state \<Rightarrow> int \<times> effect list \<times> sample_state" where
  "js_home_set sender s =
     (case sender of
        None \<Rightarrow> (0, [], s)
      | Some player \<Rightarrow>
          let uuid = p_uuid player;
              pos = (\<lfloor>p_x player\<rfloor>, \<lfloor>p_y player\<rfloor>, \<lfloor>p_z player\<rfloor>)
          in (1, [SendFeedback (''Home set at '' @ pos_text pos)],
              s\<lparr>homeData := AList.update uuid pos (homeData s)\<rparr>))"

definition js_home_go :: "player option \<Rightarrow> sample_state \<Rightarrow> int \<times> effect list \<times> sample_state" where
  "js_home_go sender s =
     (case sender of
        None \<Rightarrow> (0, [], s)
      | Some player \<Rightarrow>
          (case map_of (homeData s) (p_uuid player) of
             None \<Rightarrow> (0, [SendError ''No home set. Use /js home set first.''], s)
           | Some (x, y, z) \<Rightarrow>
               (1, [EntityTeleport (p_uuid player) (of_int x + 0.5) (of_int y) (of_int z + 0.5),
                    SendFeedback ''Teleported home!''], s)))"

definition js_home_info :: "player option \<Rightarrow> sample_state \<Rightarrow> int \<times> effect list \<times> sample_state" where
  "js_home_info sender s =
     (case sender of
        None \<Rightarrow> (0, [], s)
      | Some player \<Rightarrow>
          (case map_of (homeData s) (p_uuid player) of
             None \<Rightarrow> (0, [SendError ''No home set.''], s)
           | Some pos \<Rightarrow> (1, [SendFeedback (''Home: '' @ pos_text pos)], s)))"

definition js_home_clear :: "player option \<Rightarrow> sample_state \<Rightarrow> int \<times> effect list \<times> sample_state" where
  "js_home_clear sender s =
     (case sender of
        None \<Rightarrow> (0, [], s)
      | Some player \<Rightarrow>
          (1, [SendFeedback ''Home cleared.''],
           s\<lparr>homeData := AList.delete (p_uuid player) (homeData s)\<rparr>))"

text \<open>\<^verbatim>\<open>/js daily\<close>; \<open>now\<close> is \<^verbatim>\<open>System.currentTimeMillis()\<close>.\<close>

definition js_daily :: "int \<Rightarrow> player option \<Rightarrow> sample_state \<Rightarrow> int \<times> effect list \<times> sample_state" where
  "js_daily now sender s =
     (case sender of
        None \<Rightarrow> (0, [], s)
      | Some player \<Rightarrow>
          let uuid = p_uuid player;
              claim = (1, [GiveItemStack uuid ''EMERALD'' 3,
                           GiveItemStack uuid ''GOLDEN_APPLE'' 1,
                           SendFeedback ''Daily reward claimed!''],
                       s\<lparr>dailyClaims := AList.update uuid now (dailyClaims s)\<rparr>)
          in case map_of (dailyClaims s) uuid of
               None \<Rightarrow> claim
             | Some last_claim \<Rightarrow>
                 let elapsed = now - last_claim in
                 if elapsed < DAILY_COOLDOWN_MS then
                   let remaining = DAILY_COOLDOWN_MS - elapsed
                   in (0, [SendFeedback (''Daily reward available in ''
                                         @ formatDurationMs remaining @ ''.'')], s)
                 else claim)"

text \<open>A player, and a state in which that player claimed the daily reward at time 1000000.\<close>

definition alice :: player where
  "alice = \<lparr>p_uuid = ''uuid-alice'', p_name = ''Alice'', p_x = 1.5, p_y = 64, p_z = -2.5\<rparr>"

definition daily_state :: sample_state where
  "daily_state = \<lparr>playerData = [], homeData = [], dailyClaims = [(''uuid-alice'', 1000000)]\<rparr>"

chapter \<open>Properties\<close>

section \<open>version.js\<close>

lemma endsWith_suffix: "endsWith s t = suffix t s"
proof
  assume "endsWith s t"
  then have "drop (length s - length t) s = t" by (simp add: endsWith_def)
  then show "suffix t s" by (metis suffix_drop)
next
  assume "suffix t s"
  then obtain zs where "s = zs @ t" by (auto simp: suffix_def)
  then show "endsWith s t" by (simp add: endsWith_def)
qed

lemma length_config: "length VERSION_CONFIG = 2"
  by (simp add: VERSION_CONFIG_def)

lemma matching_indices_bound: "i \<in> set (matching_indices pk P) \<Longrightarrow> i < 2"
  using length_config by (simp add: matching_indices_def)

lemma matching_indices_sorted: "sorted (matching_indices pk P)"
  unfolding matching_indices_def by (rule sorted_wrt_filter) simp

lemma matching_indices_match:
  "i \<in> set (matching_indices pk P) \<Longrightarrow> path_matches pk P (VERSION_CONFIG ! i)"
  by (simp add: matching_indices_def)

lemma sorted_le_last: "sorted xs \<Longrightarrow> (j::nat) \<in> set xs \<Longrightarrow> j \<le> last xs"
  by (induction xs) auto

text \<open>
  The loop over the table appends one option per entry and leaves in \<^verbatim>\<open>currentIndex\<close> the
  index of the last entry whose path ends the location.
\<close>

lemma populate_config:
  "populate pk (strip_trailing_slashes P) VERSION_CONFIG 0 (select, 0) =
     (appendChild (''v1.0.0'', ''v1.0.0'') (appendChild (''main'', ''main (latest)'') select),
      current_index pk P)"
  by (cases pk)
     (simp_all add: VERSION_CONFIG_def matching_indices_def path_matches_def endsWith_suffix
        current_index_def strip_trailing_slashes_def upt_rec[of 0] upt_rec[of 1]
        upt_rec[of "Suc 0"] split: list.splits)

lemma current_index_bound: "current_index pk P < 2"
proof (cases "matching_indices pk P")
  case Nil
  then show ?thesis by (simp add: current_index_def)
next
  case (Cons a as)
  then have "last (matching_indices pk P) \<in> set (matching_indices pk P)" by simp
  then show ?thesis
    using Cons matching_indices_bound[of "last (matching_indices pk P)" pk P]
    by (simp add: current_index_def)
qed

lemma current_index_last:
  assumes "matching_indices pk P \<noteq> []"
  shows "path_matches pk P (VERSION_CONFIG ! current_index pk P)
         \<and> (\<forall>j \<in> set (matching_indices pk P). j \<le> current_index pk P)"
proof -
  have "current_index pk P = last (matching_indices pk P)"
    using assms by (simp add: current_index_def split: list.splits)
  moreover have "last (matching_indices pk P) \<in> set (matching_indices pk P)"
    using assms by simp
  moreover have "sorted (matching_indices pk P)"
    by (rule matching_indices_sorted)
  ultimately show ?thesis
    using matching_indices_match sorted_le_last by metis
qed

lemma nth_opt_config:
  "nth_opt VERSION_CONFIG (current_index pk P) = Some (VERSION_CONFIG ! current_index pk P)"
  using current_index_bound[of pk P] by (simp add: nth_opt_def length_config)

lemma vnote_config: "i < 2 \<Longrightarrow> vnote (VERSION_CONFIG ! i) \<noteq> []"
  by (cases i) (auto simp: VERSION_CONFIG_def)

text \<open>
  An element found in the table is the first entry under its id, the one that a write
  through the id reaches; writing to it, or the text of another element, does not hide it
  from a later lookup.
\<close>

lemma getElementById_listed:
  "getElementById els i = Some (Listed el) \<Longrightarrow> map_of els i = Some el"
  by (induction els) (auto split: if_splits)

lemma getElementById_update:
  "getElementById els i = Some (Listed el) \<Longrightarrow> getElementById (AList.update i v els) i = Some (Listed v)"
  by (induction els) (auto split: if_splits)

lemma getElementById_map_entry:
  "getElementById els i = Some (Listed el) \<Longrightarrow> k \<noteq> i \<Longrightarrow> (\<And>e. inner_ids (f e) = [])
     \<Longrightarrow> getElementById (AList.map_entry k f els) i = Some (Listed el)"
  by (induction els) (auto split: if_splits)

lemma inner_ids_set_textContent: "inner_ids (set_textContent t e) = []"
  by (cases e) (simp_all add: inner_ids_def set_textContent_def)

text \<open>
  A select gets the two options appended, and the assignment of \<^verbatim>\<open>selectedIndex\<close> finds
  the index in range.
\<close>

lemma filled_select:
  "set_selectedIndex (int (current_index pk P))
     (appendChild (''v1.0.0'', ''v1.0.0'') (appendChild (''main'', ''main (latest)'') (SelectEl select)))
   = SelectEl (select\<lparr>sel_options := sel_options select @
                                        [(''main'', ''main (latest)''), (''v1.0.0'', ''v1.0.0'')],
                       selectedIndex := int (current_index pk P)\<rparr>)"
  using current_index_bound[of pk P]
  by (simp add: set_selectedIndex_def appendChild_def)

text \<open>
  The call on a page whose select exists, in one piece: the select is filled, and the note
  of the current version is then written to the note element, if there is one.
\<close>

lemma init_elements:
  assumes "selectId opts \<noteq> []"
    and "getElementById (elements doc) (selectId opts) = Some (Listed (SelectEl select))"
  shows "initThreadJsVersionSelector (Some opts) doc =
           map_option (\<lambda>els. doc\<lparr>elements := els,
                         change_listeners := change_listeners doc @ [(selectId opts, pageKey opts)]\<rparr>)
             (let elements1 =
                    AList.update (selectId opts)
                      (SelectEl (select\<lparr>sel_options := sel_options select @
                                    [(''main'', ''main (latest)''), (''v1.0.0'', ''v1.0.0'')],
                                  selectedIndex := int (current_index (pageKey opts) (pathname doc))\<rparr>))
                      (elements doc);
                  note = vnote (VERSION_CONFIG ! current_index (pageKey opts) (pathname doc))
              in case noteId opts of
                   None \<Rightarrow> Some elements1
                 | Some nid \<Rightarrow>
                     if nid = [] then Some elements1
                     else (case getElementById (elements doc) nid of
                             None \<Rightarrow> Some elements1
                           | Some Nested \<Rightarrow> None
                           | Some (Listed el) \<Rightarrow>
                               Some (AList.map_entry nid (set_textContent note) elements1)))"
  using assms vnote_config[OF current_index_bound[of "pageKey opts" "pathname doc"]]
  by (simp add: initThreadJsVersionSelector_def populate_config filled_select nth_opt_config Let_def
      split: option.splits node.splits)

lemma init_select:
  assumes "selectId opts \<noteq> []"
    and "getElementById (elements doc) (selectId opts) = Some (Listed (SelectEl select))"
    and "noteId opts \<noteq> Some (selectId opts)"
    and "\<forall>nid. noteId opts = Some nid \<and> nid \<noteq> [] \<longrightarrow>
           getElementById (elements doc) nid \<noteq> Some Nested"
  shows "\<exists>doc'. initThreadJsVersionSelector (Some opts) doc = Some doc'
           \<and> getElementById (elements doc') (selectId opts)
               = Some (Listed (SelectEl (select\<lparr>sel_options := sel_options select @
                                    [(''main'', ''main (latest)''), (''v1.0.0'', ''v1.0.0'')],
                                  selectedIndex := int (current_index (pageKey opts) (pathname doc))\<rparr>)))"
proof -
  let ?f = "SelectEl (select\<lparr>sel_options := sel_options select @
                                    [(''main'', ''main (latest)''), (''v1.0.0'', ''v1.0.0'')],
                                  selectedIndex := int (current_index (pageKey opts) (pathname doc))\<rparr>)"
  let ?els = "AList.update (selectId opts) ?f (elements doc)"
  have u: "getElementById ?els (selectId opts) = Some (Listed ?f)"
    using assms(2) by (rule getElementById_update)
  show ?thesis
  proof (cases "noteId opts")
    case None
    then show ?thesis
      using u by (simp add: init_elements[OF assms(1,2)] Let_def)
  next
    case (Some nid)
    with assms(3) have ne: "nid \<noteq> selectId opts" by auto
    show ?thesis
    proof (cases "nid = []")
      case True
      with Some show ?thesis
        using u by (simp add: init_elements[OF assms(1,2)] Let_def)
    next
      case False
      with Some assms(4) have nn: "getElementById (elements doc) nid \<noteq> Some Nested" by simp
      show ?thesis
      proof (cases "getElementById (elements doc) nid")
        case None
        with Some show ?thesis
          using u by (simp add: init_elements[OF assms(1,2)] Let_def)
      next
        case (Some found)
        with nn obtain el where "found = Listed el" by (cases found) auto
        with Some \<open>noteId opts = Some nid\<close> ne False show ?thesis
          using getElementById_map_entry[OF u ne, of "set_textContent (vnote (VERSION_CONFIG ! current_index (pageKey opts) (pathname doc)))"]
          by (simp add: init_elements[OF assms(1,2)] Let_def inner_ids_set_textContent)
      qed
    qed
  qed
qed

text \<open>
  C7, as the code has it. On a page where \<^verbatim>\<open>selectId\<close> names a select and the note element,
  if there is one, is neither that select nor an option or option group inside a select:
  after \<^verbatim>\<open>initThreadJsVersionSelector\<close> has run, the select's \<^verbatim>\<open>selectedIndex\<close> is 0 when
  no entry's page path (for the page key, prefixed with a slash, trailing slashes stripped)
  is a suffix of the stripped location path; otherwise it is the index of an entry whose
  path is such a suffix, namely of the last one in the table.
\<close>

theorem selected_index_matches_location:
  assumes "selectId opts \<noteq> []"
    and "getElementById (elements doc) (selectId opts) = Some (Listed (SelectEl select))"
    and "noteId opts \<noteq> Some (selectId opts)"
    and "\<forall>nid. noteId opts = Some nid \<and> nid \<noteq> [] \<longrightarrow>
           getElementById (elements doc) nid \<noteq> Some Nested"
  shows "\<exists>doc' select'.
           initThreadJsVersionSelector (Some opts) doc = Some doc'
           \<and> getElementById (elements doc') (selectId opts) = Some (Listed (SelectEl select'))
           \<and> selectedIndex select' = int (current_index (pageKey opts) (pathname doc))
           \<and> (matching_indices (pageKey opts) (pathname doc) = [] \<longrightarrow> selectedIndex select' = 0)
           \<and> (matching_indices (pageKey opts) (pathname doc) \<noteq> [] \<longrightarrow>
                 path_matches (pageKey opts) (pathname doc) (VERSION_CONFIG ! nat (selectedIndex select'))
                 \<and> (\<forall>j \<in> set (matching_indices (pageKey opts) (pathname doc)). int j \<le> selectedIndex select'))"
proof -
  let ?pk = "pageKey opts" and ?P = "pathname doc"
  let ?c = "current_index ?pk ?P"
  let ?f = "select\<lparr>sel_options := sel_options select @
                       [(''main'', ''main (latest)''), (''v1.0.0'', ''v1.0.0'')],
                    selectedIndex := int ?c\<rparr>"
  obtain doc' where run: "initThreadJsVersionSelector (Some opts) doc = Some doc'"
    and sel: "getElementById (elements doc') (selectId opts) = Some (Listed (SelectEl ?f))"
    using init_select[OF assms] by blast
  have idx: "selectedIndex ?f = int ?c" by simp
  have zero: "?c = 0" if "matching_indices ?pk ?P = []"
    using that by (simp add: current_index_def)
  from run sel idx zero current_index_last[of ?pk ?P] show ?thesis by auto
qed

lemma example_matching: "matching_indices Api ''/ThreadJS/v1.0.0/index.html'' = [0, 1]"
  by (simp add: matching_indices_def VERSION_CONFIG_def path_matches_def strip_trailing_slashes_def
      suffix_to_prefix upt_rec[of 0] upt_rec[of 1] upt_rec[of "Suc 0"])

lemma slashed_matching: "matching_indices Api ''/ThreadJS/v1.0.0/index.html//'' = [0, 1]"
  by (simp add: matching_indices_def VERSION_CONFIG_def path_matches_def strip_trailing_slashes_def
      suffix_to_prefix upt_rec[of 0] upt_rec[of 1] upt_rec[of "Suc 0"])

lemma custom_matching: "matching_indices Api ''/ThreadJS/changelog.html'' = []"
  by (simp add: matching_indices_def VERSION_CONFIG_def path_matches_def strip_trailing_slashes_def
      suffix_to_prefix upt_rec[of 0] upt_rec[of 1] upt_rec[of "Suc 0"])

theorem selected_index_matches_location_witness:
  "selectId example_options \<noteq> []
   \<and> noteId example_options = Some ''versionNote''
   \<and> getElementById (elements slashed_doc) ''versionSelect'' = Some (Listed (SelectEl example_select))
   \<and> getElementById (elements slashed_doc) ''versionNote'' = Some (Listed (PlainEl example_note))
   \<and> pathname slashed_doc = ''/ThreadJS/v1.0.0/index.html//''
   \<and> (\<exists>doc' select'. initThreadJsVersionSelector (Some example_options) slashed_doc = Some doc'
          \<and> getElementById (elements doc') ''versionSelect'' = Some (Listed (SelectEl select'))
          \<and> selectedIndex select' = 1
          \<and> path_matches Api ''/ThreadJS/v1.0.0/index.html//'' (VERSION_CONFIG ! 1))
   \<and> pathname custom_doc = ''/ThreadJS/changelog.html''
   \<and> (\<exists>doc' select'. initThreadJsVersionSelector (Some example_options) custom_doc = Some doc'
          \<and> getElementById (elements doc') ''versionSelect'' = Some (Listed (SelectEl select'))
          \<and> selectedIndex select' = 0)"
proof -
  have k: "pageKey example_options = Api" "selectId example_options = ''versionSelect''"
    "noteId example_options = Some ''versionNote''"
    by (simp_all add: example_options_def)
  have a: "selectId example_options \<noteq> []" by (simp add: k)
  have c: "noteId example_options \<noteq> Some (selectId example_options)" by (simp add: k)
  have p: "pathname slashed_doc = ''/ThreadJS/v1.0.0/index.html//''"
    "pathname custom_doc = ''/ThreadJS/changelog.html''"
    by (simp_all add: slashed_doc_def custom_doc_def)
  have b: "getElementById (elements slashed_doc) (selectId example_options)
             = Some (Listed (SelectEl example_select))"
    by (simp add: k example_doc_def slashed_doc_def)
  have n: "getElementById (elements slashed_doc) ''versionNote'' = Some (Listed (PlainEl example_note))"
    by (simp add: example_doc_def slashed_doc_def inner_ids_def example_select_def)
  have d: "\<forall>nid. noteId example_options = Some nid \<and> nid \<noteq> [] \<longrightarrow>
             getElementById (elements slashed_doc) nid \<noteq> Some Nested"
    using n by (simp add: k)
  have b': "getElementById (elements custom_doc) (selectId example_options)
              = Some (Listed (SelectEl example_select))"
    by (simp add: k example_doc_def custom_doc_def)
  have d': "\<forall>nid. noteId example_options = Some nid \<and> nid \<noteq> [] \<longrightarrow>
              getElementById (elements custom_doc) nid \<noteq> Some Nested"
    by (simp add: k example_doc_def custom_doc_def inner_ids_def example_select_def)
  have one: "\<exists>doc' select'. initThreadJsVersionSelector (Some example_options) slashed_doc = Some doc'
          \<and> getElementById (elements doc') ''versionSelect'' = Some (Listed (SelectEl select'))
          \<and> selectedIndex select' = 1
          \<and> path_matches Api ''/ThreadJS/v1.0.0/index.html//'' (VERSION_CONFIG ! 1)"
    using selected_index_matches_location[OF a b c d] slashed_matching
    by (auto simp: k p current_index_def)
  have zero: "\<exists>doc' select'. initThreadJsVersionSelector (Some example_options) custom_doc = Some doc'
          \<and> getElementById (elements doc') ''versionSelect'' = Some (Listed (SelectEl select'))
          \<and> selectedIndex select' = 0"
    using selected_index_matches_location[OF a b' c d'] custom_matching
    by (auto simp: k p current_index_def)
  from a k(3) b n p one zero show ?thesis by (simp add: k)
qed

text \<open>
  C7 as stated, for every call, does not hold. When the options name the select as the
  note element too, the assignment of the note empties the select that was just filled: on
  the page of the v1.0.0 API documentation, where the paths of both entries end the
  location, the select is left without options and its \<^verbatim>\<open>selectedIndex\<close> reads \<open>-1\<close>,
  neither 0 nor the index of an entry.
\<close>

theorem note_on_the_select_clears_the_selection:
  "selectId aliased_options \<noteq> []
   \<and> getElementById (elements example_doc) (selectId aliased_options)
       = Some (Listed (SelectEl example_select))
   \<and> noteId aliased_options = Some (selectId aliased_options)
   \<and> matching_indices (pageKey aliased_options) (pathname example_doc) = [0, 1]
   \<and> current_index (pageKey aliased_options) (pathname example_doc) = 1
   \<and> initThreadJsVersionSelector (Some aliased_options) example_doc =
       Some (example_doc
              \<lparr>elements :=
                 [(''versionSelect'',
                   SelectEl \<lparr>sel_inner_ids = [], sel_options = [], selectedIndex = -1,
                             sel_text = ''Snapshot of the API for ThreadJS v1.0.0.''\<rparr>),
                  (''versionNote'', PlainEl example_note)],
               change_listeners := [(''versionSelect'', Api)]\<rparr>)"
proof -
  have a: "selectId aliased_options \<noteq> []" by (simp add: aliased_options_def)
  have b: "getElementById (elements example_doc) (selectId aliased_options)
             = Some (Listed (SelectEl example_select))"
    by (simp add: aliased_options_def example_doc_def)
  have m: "matching_indices (pageKey aliased_options) (pathname example_doc) = [0, 1]"
    using example_matching by (simp add: aliased_options_def example_doc_def)
  then have c: "current_index (pageKey aliased_options) (pathname example_doc) = 1"
    by (simp add: current_index_def)
  have r: "initThreadJsVersionSelector (Some aliased_options) example_doc =
       Some (example_doc
              \<lparr>elements :=
                 [(''versionSelect'',
                   SelectEl \<lparr>sel_inner_ids = [], sel_options = [], selectedIndex = -1,
                             sel_text = ''Snapshot of the API for ThreadJS v1.0.0.''\<rparr>),
                  (''versionNote'', PlainEl example_note)],
               change_listeners := [(''versionSelect'', Api)]\<rparr>)"
    unfolding init_elements[OF a b] c
    by (simp add: aliased_options_def example_doc_def set_textContent_def VERSION_CONFIG_def)
  show ?thesis using a b m c r by (simp add: aliased_options_def)
qed

text \<open>
  C8. When the select's value is the id of a table entry that has a page path for the
  page key, the change listener assigns exactly that stored path to
  \<^verbatim>\<open>window.location.href\<close>; when no entry with that id has a path for the page key (in
  particular when no entry has that id), the page is left as it was.
\<close>

theorem change_navigates:
  "(v \<in> set VERSION_CONFIG \<and> select_value select = vid v \<and> map_of (pages v) pk = Some p
      \<longrightarrow> href_assigned (on_change pk select doc) = Some p)
   \<and> ((\<forall>v \<in> set VERSION_CONFIG. vid v = select_value select \<longrightarrow> map_of (pages v) pk = None)
      \<longrightarrow> on_change pk select doc = doc)"
proof (intro conjI impI)
  assume "v \<in> set VERSION_CONFIG \<and> select_value select = vid v \<and> map_of (pages v) pk = Some p"
  then show "href_assigned (on_change pk select doc) = Some p"
    by (cases pk) (auto simp: on_change_def VERSION_CONFIG_def)
next
  assume none: "\<forall>v \<in> set VERSION_CONFIG. vid v = select_value select \<longrightarrow> map_of (pages v) pk = None"
  show "on_change pk select doc = doc"
  proof (cases "find (\<lambda>v. vid v = select_value select) VERSION_CONFIG")
    case None
    then show ?thesis by (simp add: on_change_def)
  next
    case (Some version)
    then have "version \<in> set VERSION_CONFIG" "vid version = select_value select"
      by (auto simp: find_Some_iff)
    with none have "map_of (pages version) pk = None" by blast
    with Some show ?thesis by (simp add: on_change_def)
  qed
qed

theorem change_navigates_witness:
  "href_assigned (on_change Inspector chosen_select example_doc) = Some ''v1.0.0/inspector.html''
   \<and> on_change Inspector stale_select example_doc = example_doc"
proof -
  have v: "VERSION_CONFIG ! 1 \<in> set VERSION_CONFIG" by (simp add: VERSION_CONFIG_def)
  have "href_assigned (on_change Inspector chosen_select example_doc) = Some ''v1.0.0/inspector.html''"
    using change_navigates[of "VERSION_CONFIG ! 1" chosen_select Inspector "''v1.0.0/inspector.html''" example_doc] v
    by (simp add: VERSION_CONFIG_def chosen_select_def select_value_def)
  moreover have "on_change Inspector stale_select example_doc = example_doc"
    using change_navigates[of "VERSION_CONFIG ! 0" stale_select Inspector "[]" example_doc]
    by (simp add: VERSION_CONFIG_def stale_select_def select_value_def)
  ultimately show ?thesis by simp
qed

section \<open>The sample mod: delayed tasks\<close>

text \<open>
  Running a list of tasks with the source's try/catch is \<open>run_due\<close> plus the bookkeeping;
  the loop with its scan index is a filter; the parts of the state after the two
  operations.
\<close>

lemma fold_run_action:
  "fold run_action ts (w, wl, tr) =
     (fst (run_due ts w), wl @ map (\<lambda>e. ''Scheduled task error: '' @ e) (snd (run_due ts w)), tr @ ts)"
proof (induction ts arbitrary: w wl tr)
  case Nil
  then show ?case by simp
next
  case (Cons t ts)
  obtain w' r where a: "action t w = (w', r)" by (cases "action t w")
  obtain w'' es where b: "run_due ts w' = (w'', es)" by (cases "run_due ts w'")
  show ?case using a b Cons[of w'] by (cases r) (simp_all add: run_action_def)
qed

lemma take_remove_at: "i < length xs \<Longrightarrow> take i (remove_at i xs) = take i xs"
  by (simp add: remove_at_def)

lemma drop_remove_at: "i < length xs \<Longrightarrow> drop i (remove_at i xs) = drop (Suc i) xs"
  by (simp add: remove_at_def)

lemma sweep_unfold:
  "sweep tc i tasks h =
     (if i < length tasks then
        if due tc (tasks ! i) then sweep tc i (remove_at i tasks) (run_action (tasks ! i) h)
        else sweep tc (Suc i) tasks h
      else (tasks, h))"
  by (subst sweep.simps) (simp add: due_def Let_def)

lemma sweep_from:
  "sweep tc i tasks h =
     (take i tasks @ filter (\<lambda>t. \<not> due tc t) (drop i tasks),
      fold run_action (filter (due tc) (drop i tasks)) h)"
proof (induction tc i tasks h rule: sweep.induct)
  case (1 tc i tasks h)
  show ?case
  proof (cases "i < length tasks")
    case False
    then show ?thesis by (simp add: sweep_unfold[of tc i tasks h])
  next
    case inside: True
    then have d: "drop i tasks = tasks ! i # drop (Suc i) tasks"
      by (simp add: Cons_nth_drop_Suc)
    show ?thesis
    proof (cases "due tc (tasks ! i)")
      case True
      then have le: "tickTarget (tasks ! i) \<le> tc" by (simp add: due_def)
      have "sweep tc i tasks h = sweep tc i (remove_at i tasks) (run_action (tasks ! i) h)"
        using inside True by (simp add: sweep_unfold[of tc i tasks h])
      also have "\<dots> = (take i (remove_at i tasks) @ filter (\<lambda>t. \<not> due tc t) (drop i (remove_at i tasks)),
          fold run_action (filter (due tc) (drop i (remove_at i tasks))) (run_action (tasks ! i) h))"
        using "1.IH"(1)[OF inside refl le] .
      finally show ?thesis using True inside d
        by (simp add: take_remove_at drop_remove_at)
    next
      case False
      then have nle: "\<not> tickTarget (tasks ! i) \<le> tc" by (simp add: due_def)
      have "sweep tc i tasks h = sweep tc (Suc i) tasks h"
        using inside False by (simp add: sweep_unfold[of tc i tasks h])
      also have "\<dots> = (take (Suc i) tasks @ filter (\<lambda>t. \<not> due tc t) (drop (Suc i) tasks),
          fold run_action (filter (due tc) (drop (Suc i) tasks)) h)"
        using "1.IH"(2)[OF inside refl nle] .
      finally show ?thesis using False inside d
        by (simp add: take_Suc_conv_app_nth)
    qed
  qed
qed

lemma onEndTick_parts:
  "tickCounter (onEndTick aura s) = tickCounter s + 1"
  "scheduledTasks (onEndTick aura s) = filter (\<lambda>t. \<not> due (tickCounter s + 1) t) (scheduledTasks s)"
  "executed (onEndTick aura s) = executed s @ filter (due (tickCounter s + 1)) (scheduledTasks s)"
  by (simp_all add: onEndTick_def sweep_from fold_run_action Let_def split_beta)

lemma scheduleTask_parts:
  "tickCounter (scheduleTask d a s) = tickCounter s"
  "scheduledTasks (scheduleTask d a s) = scheduledTasks s @ [\<lparr>tickTarget = tickCounter s + d, action = a\<rparr>]"
  "executed (scheduleTask d a s) = executed s"
  by (simp_all add: scheduleTask_def)

lemma ledger_step:
  "mset (executed (tick_step aura e s)) + mset (scheduledTasks (tick_step aura e s)) =
     mset (executed s) + mset (scheduledTasks s) + mset (tasks_added (tickCounter s) [e])"
  by (cases e) (simp_all add: onEndTick_parts scheduleTask_parts)

text \<open>
  C1. One call of \<^verbatim>\<open>onEndTick\<close> increments the tick counter and then, with the
  incremented counter \<open>tc\<close>: calls the action of every entry with \<open>tickTarget \<le> tc\<close>, in
  list order, and removes exactly those entries; appends one warning line to the log for
  every action that threw (the exception never leaves the handler, and the failed task
  is removed like the others); and keeps the entries that are not yet due, unchanged and
  in order. Nothing is added to the list: the tasks run in this tick have moved from the
  list to the trace, so none of them can be run by a later tick.
\<close>

theorem end_tick_sweeps_due_tasks:
  "onEndTick aura s =
     (let tc = tickCounter s + 1;
          ready = filter (due tc) (scheduledTasks s);
          (w, errors) = run_due ready (world s)
      in \<lparr>tickCounter = tc,
          scheduledTasks = filter (\<lambda>t. \<not> due tc t) (scheduledTasks s),
          world = (if js_rem tc 1200 = 0 then aura w else w),
          warned = warned s @ map (\<lambda>e. ''Scheduled task error: '' @ e) errors,
          executed = executed s @ ready\<rparr>)
   \<and> mset (executed (onEndTick aura s)) + mset (scheduledTasks (onEndTick aura s)) =
       mset (executed s) + mset (scheduledTasks s)"
proof
  show "onEndTick aura s =
     (let tc = tickCounter s + 1;
          ready = filter (due tc) (scheduledTasks s);
          (w, errors) = run_due ready (world s)
      in \<lparr>tickCounter = tc,
          scheduledTasks = filter (\<lambda>t. \<not> due tc t) (scheduledTasks s),
          world = (if js_rem tc 1200 = 0 then aura w else w),
          warned = warned s @ map (\<lambda>e. ''Scheduled task error: '' @ e) errors,
          executed = executed s @ ready\<rparr>)"
    by (simp add: onEndTick_def sweep_from fold_run_action Let_def split_beta)
  show "mset (executed (onEndTick aura s)) + mset (scheduledTasks (onEndTick aura s)) =
       mset (executed s) + mset (scheduledTasks s)"
    using ledger_step[of aura EndTick s] by simp
qed

theorem end_tick_sweeps_due_tasks_witness:
  "onEndTick id example_tick_state =
     \<lparr>tickCounter = 20,
      scheduledTasks = [\<lparr>tickTarget = 100, action = send_tip\<rparr>],
      world = [''spawnParticles TOTEM_OF_UNDYING''],
      warned = [''Scheduled task error: TypeError: player left''],
      executed = [\<lparr>tickTarget = 20, action = failing_action\<rparr>,
                  \<lparr>tickTarget = 15, action = spawn_totem\<rparr>]\<rparr>"
  using end_tick_sweeps_due_tasks[of id example_tick_state]
  by (simp add: example_tick_state_def due_def failing_action_def spawn_totem_def js_rem_def)

text \<open>The ledger of a run.\<close>

lemma tick_run_Cons: "tick_run aura (e # es) s = tick_run aura es (tick_step aura e s)"
  by (simp add: tick_run_def)

lemma tasks_added_Cons:
  "mset (tasks_added tc (e # es)) = mset (tasks_added tc [e]) + mset (tasks_added (tickCounter (tick_step aura e s)) es)"
  if "tc = tickCounter s"
  using that by (cases e) (simp_all add: onEndTick_parts scheduleTask_parts)

lemma ledger_run:
  "mset (executed (tick_run aura es s)) + mset (scheduledTasks (tick_run aura es s)) =
     mset (executed s) + mset (scheduledTasks s) + mset (tasks_added (tickCounter s) es)"
proof (induction es arbitrary: s)
  case Nil
  then show ?case by (simp add: tick_run_def)
next
  case (Cons e es)
  show ?case
    unfolding tick_run_Cons Cons.IH[of "tick_step aura e s"] ledger_step
      tasks_added_Cons[of "tickCounter s" s e es aura, OF refl]
    by (simp add: ac_simps)
qed

lemma counter_run: "tickCounter s \<le> tickCounter (tick_run aura es s)"
proof (induction es arbitrary: s)
  case Nil
  then show ?case by (simp add: tick_run_def)
next
  case (Cons e es)
  have "tickCounter s \<le> tickCounter (tick_step aura e s)"
    by (cases e) (simp_all add: onEndTick_parts scheduleTask_parts)
  also have "\<dots> \<le> tickCounter (tick_run aura es (tick_step aura e s))" by (rule Cons.IH)
  finally show ?case by (simp add: tick_run_Cons)
qed

text \<open>
  C9. In every run of \<^verbatim>\<open>scheduleTask\<close> and \<^verbatim>\<open>onEndTick\<close> calls from the initial state, the
  tasks executed so far together with the tasks still in the list are exactly the tasks
  added (as multisets), so a task is executed at most as often as it was added and a task
  that was executed is no longer in the list. The tick counter never decreases:
  \<^verbatim>\<open>scheduleTask\<close> leaves it and \<^verbatim>\<open>onEndTick\<close> adds one. One sweep executes every entry that
  is due at the new tick, consecutive ones included, and no entry left in the list is due.
\<close>

theorem scheduled_task_runs_at_most_once:
  "(let s' = tick_run aura events (tick_init w) in
      mset (executed s') + mset (scheduledTasks s') = mset (tasks_added 0 events)
      \<and> (\<forall>task. count (mset (executed s')) task \<le> count (mset (tasks_added 0 events)) task))
   \<and> tickCounter s \<le> tickCounter (tick_run aura events s)
   \<and> tickCounter (scheduleTask delayTicks act s) = tickCounter s
   \<and> tickCounter (onEndTick aura s) = tickCounter s + 1
   \<and> executed (onEndTick aura s) = executed s @ filter (due (tickCounter s + 1)) (scheduledTasks s)
   \<and> (\<forall>task \<in> set (scheduledTasks (onEndTick aura s)). tickCounter (onEndTick aura s) < tickTarget task)"
proof -
  let ?s' = "tick_run aura events (tick_init w)"
  have led: "mset (executed ?s') + mset (scheduledTasks ?s') = mset (tasks_added 0 events)"
    using ledger_run[of aura events "tick_init w"] by (simp add: tick_init_def)
  have "count (mset (executed ?s')) task \<le> count (mset (tasks_added 0 events)) task" for task
  proof -
    have "count (mset (executed ?s')) task \<le> count (mset (executed ?s') + mset (scheduledTasks ?s')) task"
      by simp
    then show ?thesis by (simp only: led)
  qed
  moreover have "\<forall>task \<in> set (scheduledTasks (onEndTick aura s)). tickCounter (onEndTick aura s) < tickTarget task"
    by (auto simp: onEndTick_parts due_def)
  ultimately show ?thesis
    using led counter_run[of s aura events] by (simp add: onEndTick_parts scheduleTask_parts Let_def)
qed

theorem scheduled_task_runs_at_most_once_witness:
  "executed (tick_run id example_events (tick_init [])) =
      [\<lparr>tickTarget = 1, action = failing_action\<rparr>, \<lparr>tickTarget = 1, action = spawn_totem\<rparr>]
   \<and> scheduledTasks (tick_run id example_events (tick_init [])) =
      [\<lparr>tickTarget = 3, action = send_tip\<rparr>]
   \<and> mset (executed (tick_run id example_events (tick_init [])))
       + mset (scheduledTasks (tick_run id example_events (tick_init [])))
      = mset (tasks_added 0 example_events)
   \<and> tickCounter (tick_run id example_events (tick_init [])) = 2"
  using scheduled_task_runs_at_most_once[of id example_events "[]" "tick_init []" 0 send_tip]
  by (simp add: example_events_def tick_run_def tick_init_def onEndTick_parts scheduleTask_parts
        due_def)

section \<open>The sample mod: commands\<close>

text \<open>
  C10. \<^verbatim>\<open>/js daily\<close> by a player. When a claim time is stored for the player and less than
  \<^verbatim>\<open>DAILY_COOLDOWN_MS\<close> (300000 ms) have passed since, the handler gives no item, sends the
  remaining wait as feedback, returns 0 and leaves the state, the stored time included,
  as it was. When no time is stored, or at least the cooldown has passed, it returns 1,
  gives the two stacks and stores the current time for the player (only that entry
  changes).
\<close>

theorem daily_cooldown:
  "(map_of (dailyClaims s) (p_uuid player) = Some last_claim \<and> now - last_claim < DAILY_COOLDOWN_MS
        \<longrightarrow> js_daily now (Some player) s =
              (0, [SendFeedback (''Daily reward available in ''
                     @ formatDurationMs (DAILY_COOLDOWN_MS - (now - last_claim)) @ ''.'')], s)
            \<and> grants_of (fst (snd (js_daily now (Some player) s))) = [])
   \<and> (map_of (dailyClaims s) (p_uuid player) = None
        \<or> (\<exists>last_claim. map_of (dailyClaims s) (p_uuid player) = Some last_claim
              \<and> DAILY_COOLDOWN_MS \<le> now - last_claim)
        \<longrightarrow> fst (js_daily now (Some player) s) = 1
            \<and> grants_of (fst (snd (js_daily now (Some player) s))) =
                 [(p_uuid player, ''EMERALD'', 3), (p_uuid player, ''GOLDEN_APPLE'', 1)]
            \<and> map_of (dailyClaims (snd (snd (js_daily now (Some player) s)))) =
                 (map_of (dailyClaims s))(p_uuid player \<mapsto> now))"
  by (auto simp: js_daily_def DAILY_COOLDOWN_MS_def Let_def grants_of_def update_conv')

lemma formatDurationMs_examples:
  "formatDurationMs 240000 = ''4m 0s''" "formatDurationMs 1 = ''0s''"
  by code_simp+

theorem daily_cooldown_witness:
  "js_daily 1060000 (Some alice) daily_state =
      (0, [SendFeedback ''Daily reward available in 4m 0s.''], daily_state)
   \<and> js_daily 1299999 (Some alice) daily_state =
      (0, [SendFeedback ''Daily reward available in 0s.''], daily_state)
   \<and> fst (js_daily 1300000 (Some alice) daily_state) = 1
   \<and> grants_of (fst (snd (js_daily 1300000 (Some alice) daily_state))) =
      [(''uuid-alice'', ''EMERALD'', 3), (''uuid-alice'', ''GOLDEN_APPLE'', 1)]
   \<and> map_of (dailyClaims (snd (snd (js_daily 1300000 (Some alice) daily_state)))) ''uuid-alice'' =
      Some 1300000"
  using daily_cooldown[of daily_state alice 1000000 1060000]
        daily_cooldown[of daily_state alice 1000000 1299999]
        daily_cooldown[of daily_state alice 1000000 1300000]
  by (simp add: alice_def daily_state_def DAILY_COOLDOWN_MS_def formatDurationMs_examples)

section \<open>Loading the persisted mappings\<close>

lemma load_mapping_cases:
  "json_roundtrip raw = Inl e \<Longrightarrow> load_mapping pre raw = ([Log (pre @ exn_text e)], JObj [])"
  "json_roundtrip raw = Inr v \<Longrightarrow> \<not> truthy v \<Longrightarrow> load_mapping pre raw = ([], JObj [])"
  "json_roundtrip raw = Inr v \<Longrightarrow> truthy v \<Longrightarrow> load_mapping pre raw = ([], v)"
  by (simp_all add: load_mapping_def)

text \<open>
  C3, as the code has it. For each of the three mods and every value \<open>raw\<close> returned by
  \<^verbatim>\<open>loadData\<close>: when the conversion throws, the mod logs its failure line and starts from
  the empty mapping; when the conversion yields \<^verbatim>\<open>null\<close> or another falsy value, the mod
  starts from the empty mapping and logs nothing about it; otherwise it starts from the
  converted value. In each case initialisation runs to its end (the last log line).
\<close>

theorem load_falls_back_to_empty:
  "(json_roundtrip raw = Inl e \<longrightarrow>
      spawn_kit_onInitialize raw =
        ([Log ''[SpawnKit] Loading Spawn Kit mod...'',
          Log (''[SpawnKit] Failed to parse received data: '' @ exn_text e),
          RegisterCommand ''kit'', RegisterCommand ''kitreset'', Log ''Spawn Kit mod loaded!''],
         JObj [])
      \<and> player_tracker_onInitialize raw =
        ([Log ''[PlayerTracker] Loading Player Tracker mod...'',
          Log (''[PlayerTracker] Failed to parse activity: '' @ exn_text e),
          RegisterListener ''onCommandExecute'', RegisterCommand ''activity'',
          RegisterCommand ''leaderboard'', Log ''Player Tracker mod loaded!''],
         JObj [])
      \<and> teleport_home_onInitialize raw =
        ([Log ''[TeleportHome] Loading Teleport Home mod...'',
          Log (''[TeleportHome] Failed to parse homes: '' @ exn_text e),
          RegisterCommand ''home'', Log ''Teleport Home mod loaded!''],
         JObj []))
   \<and> (json_roundtrip raw = Inr v \<and> \<not> truthy v \<longrightarrow>
      spawn_kit_onInitialize raw =
        ([Log ''[SpawnKit] Loading Spawn Kit mod...'',
          RegisterCommand ''kit'', RegisterCommand ''kitreset'', Log ''Spawn Kit mod loaded!''],
         JObj [])
      \<and> player_tracker_onInitialize raw =
        ([Log ''[PlayerTracker] Loading Player Tracker mod...'',
          RegisterListener ''onCommandExecute'', RegisterCommand ''activity'',
          RegisterCommand ''leaderboard'', Log ''Player Tracker mod loaded!''],
         JObj [])
      \<and> teleport_home_onInitialize raw =
        ([Log ''[TeleportHome] Loading Teleport Home mod...'',
          RegisterCommand ''home'', Log ''Teleport Home mod loaded!''],
         JObj []))
   \<and> (json_roundtrip raw = Inr v \<and> truthy v \<longrightarrow>
      snd (spawn_kit_onInitialize raw) = v
      \<and> snd (player_tracker_onInitialize raw) = v
      \<and> snd (teleport_home_onInitialize raw) = v)"
  by (simp add: spawn_kit_onInitialize_def player_tracker_onInitialize_def
        teleport_home_onInitialize_def load_mapping_cases)

theorem load_falls_back_to_empty_witness:
  "json_roundtrip (JBigInt 5) = Inl TypeError
   \<and> fst (spawn_kit_onInitialize (JBigInt 5)) =
        [Log ''[SpawnKit] Loading Spawn Kit mod...'',
         Log ''[SpawnKit] Failed to parse received data: TypeError'',
         RegisterCommand ''kit'', RegisterCommand ''kitreset'', Log ''Spawn Kit mod loaded!'']
   \<and> snd (spawn_kit_onInitialize (JBigInt 5)) = JObj []
   \<and> json_roundtrip JUndefined = Inl SyntaxError
   \<and> snd (teleport_home_onInitialize JUndefined) = JObj []
   \<and> json_roundtrip (JNum 0) = Inr (JNum 0)
   \<and> player_tracker_onInitialize (JNum 0) =
        ([Log ''[PlayerTracker] Loading Player Tracker mod...'',
          RegisterListener ''onCommandExecute'', RegisterCommand ''activity'',
          RegisterCommand ''leaderboard'', Log ''Player Tracker mod loaded!''],
         JObj [])
   \<and> json_roundtrip (JObj [(''Steve'', JNum 1700000000000), (''junk'', JUndefined)]) =
        Inr (JObj [(''Steve'', JNum 1700000000000)])
   \<and> snd (spawn_kit_onInitialize (JObj [(''Steve'', JNum 1700000000000), (''junk'', JUndefined)])) =
        JObj [(''Steve'', JNum 1700000000000)]"
proof -
  have a: "json_roundtrip (JBigInt 5) = Inl TypeError"
    and b: "json_roundtrip JUndefined = Inl SyntaxError"
    and c: "json_roundtrip (JNum 0) = Inr (JNum 0)"
    and d: "json_roundtrip (JObj [(''Steve'', JNum 1700000000000), (''junk'', JUndefined)]) =
              Inr (JObj [(''Steve'', JNum 1700000000000)])"
    by (simp_all add: json_roundtrip_def dropped_def)
  show ?thesis
    using a b c d
      load_falls_back_to_empty[of "JBigInt 5" TypeError]
      load_falls_back_to_empty[of JUndefined SyntaxError]
      load_falls_back_to_empty[of "JNum 0" _ "JNum 0"]
      load_falls_back_to_empty[of "JObj [(''Steve'', JNum 1700000000000), (''junk'', JUndefined)]" _
         "JObj [(''Steve'', JNum 1700000000000)]"]
    by (simp add: exn_text_def)
qed

text \<open>
  C3 as stated does not hold: a persisted \<^verbatim>\<open>null\<close> converts to \<^verbatim>\<open>null\<close> without an
  exception, the mapping becomes \<^verbatim>\<open>{}\<close>, and no warning is logged.
\<close>

theorem null_loads_without_warning:
  "json_roundtrip JNull = Inr JNull \<and> \<not> truthy JNull
   \<and> spawn_kit_onInitialize JNull =
        ([Log ''[SpawnKit] Loading Spawn Kit mod...'',
          RegisterCommand ''kit'', RegisterCommand ''kitreset'', Log ''Spawn Kit mod loaded!''],
         JObj [])"
  by (simp add: spawn_kit_onInitialize_def load_mapping_def json_roundtrip_def dropped_def)

section \<open>spawn-kit: one kit per player\<close>

lemma count_list_append: "count_list (xs @ ys) x = count_list xs x + count_list ys x"
  by (induction xs) auto

lemma kits_given_append: "kits_given p (xs @ ys) = kits_given p xs + kits_given p ys"
  by (simp add: kits_given_def count_list_append)

lemma kits_given_give_items:
  "kits_given p (give_items q starterKit) = (if q = p then 1 else 0)"
  by (simp add: kits_given_def starterKit_def)

lemma kits_given_give_items_append:
  "kits_given p (give_items q starterKit @ es) = (if q = p then 1 else 0) + kits_given p es"
  by (simp add: kits_given_append kits_given_give_items)

lemma kits_given_simps:
  "kits_given p [] = 0"
  "kits_given p (e # es) = (if e = GiveItem p ''minecraft:stone_pickaxe'' 1 then 1 else 0) + kits_given p es"
  by (simp_all add: kits_given_def)

lemma proto_inherited: "''__proto__'' \<in> set object_prototype_keys"
  by (simp add: object_prototype_keys_def)

lemma has_kit_assign_other:
  "q \<noteq> p \<Longrightarrow> has_kit (assign_primitive q v received) p = has_kit received p"
  by (simp add: has_kit_def assign_primitive_def lookup_prop_def update_conv')

lemma has_kit_assign_same:
  "\<not> has_kit received p \<Longrightarrow> has_kit (assign_primitive p (JNum r) received) p = (r \<noteq> 0)"
  using proto_inherited
  by (auto simp: has_kit_def assign_primitive_def lookup_prop_def update_conv' prop_val_def
      split: option.splits if_splits)

lemma has_kit_delete_other:
  "q \<noteq> p \<Longrightarrow> has_kit (AList.delete q received) p = has_kit received p"
  by (simp add: has_kit_def lookup_prop_def delete_conv')

lemma kit_execute_cases:
  "\<not> has_player ctx \<Longrightarrow>
     kit_execute loc now info ctx received = ([Reply ''Only players can use this command!''], received)"
  "has_player ctx \<Longrightarrow> has_kit received (ctx_playerName ctx) \<Longrightarrow>
     kit_execute loc now info ctx received =
       ([Reply ''You've already received your starter kit!'',
         Reply (''Received on: '' @ loc (prop_val (lookup_prop received (ctx_playerName ctx))))],
        received)"
  "has_player ctx \<Longrightarrow> \<not> has_kit received (ctx_playerName ctx) \<Longrightarrow>
     kit_execute loc now info ctx received =
       ([Reply ''=== Starter Kit ===''] @ give_items (ctx_playerName ctx) starterKit @
        [SaveData ''kit_received''
           (JObj (assign_primitive (ctx_playerName ctx) (JNum (of_int now)) received)),
         GetPlayer (ctx_playerName ctx),
         SpawnParticle ''minecraft:happy_villager'' (info_x info) (info_y info + 1) (info_z info) 50,
         PlaySound ''minecraft:entity.player.levelup'' (info_x info) (info_y info) (info_z info) 1 1,
         Reply ''Starter kit received!''],
        assign_primitive (ctx_playerName ctx) (JNum (of_int now)) received)"
  by (simp_all add: kit_execute_def has_kit_def Let_def)

lemma kitreset_execute_cases:
  "\<not> has_kit received target \<Longrightarrow>
     kitreset_execute target received = ([Reply (target @ '' hasn't received a kit yet'')], received)"
  "has_kit received target \<Longrightarrow>
     kitreset_execute target received =
       ([SaveData ''kit_received'' (JObj (AList.delete target received)),
         Reply (''Reset kit status for '' @ target)],
        AList.delete target received)"
  by (simp_all add: kitreset_execute_def has_kit_def Let_def)

lemma kit_step_bound:
  assumes "clock_nonzero c"
  shows "kits_given p (fst (kit_step loc c received))
           + (if has_kit (snd (kit_step loc c received)) p then 0 else 1)
         \<le> (if has_kit received p then 0 else 1) + resets_of p [c]"
proof (cases c)
  case (Kit now info ctx)
  with assms have nz: "now \<noteq> 0" by simp
  show ?thesis
  proof (cases "has_player ctx")
    case False
    then show ?thesis using Kit by (simp add: kit_execute_cases kits_given_def resets_of_def)
  next
    case pl: True
    show ?thesis
    proof (cases "has_kit received (ctx_playerName ctx)")
      case True
      then show ?thesis using Kit pl by (simp add: kit_execute_cases kits_given_def resets_of_def)
    next
      case False
      have k: "kits_given p (fst (kit_step loc c received)) = (if ctx_playerName ctx = p then 1 else 0)"
        using Kit pl False
        by (simp add: kit_execute_cases kits_given_give_items_append kits_given_simps)
      show ?thesis
      proof (cases "ctx_playerName ctx = p")
        case True
        then show ?thesis using Kit pl False k nz
          by (simp add: kit_execute_cases has_kit_assign_same resets_of_def)
      next
        case other: False
        then show ?thesis using Kit pl False k
          by (simp add: kit_execute_cases has_kit_assign_other resets_of_def)
      qed
    qed
  qed
next
  case (KitReset target)
  show ?thesis
  proof (cases "target = p")
    case True
    then show ?thesis using KitReset
      by (cases "has_kit received p") (simp_all add: kitreset_execute_cases kits_given_def resets_of_def)
  next
    case False
    then show ?thesis using KitReset
      by (cases "has_kit received target")
         (simp_all add: kitreset_execute_cases kits_given_def resets_of_def has_kit_delete_other)
  qed
qed

lemma resets_of_Cons: "resets_of p (c # cs) = resets_of p [c] + resets_of p cs"
  by (simp add: resets_of_def)

lemma kit_run_bound:
  assumes "\<forall>c \<in> set cs. clock_nonzero c"
  shows "kits_given p (fst (kit_run loc cs received)) + (if has_kit (snd (kit_run loc cs received)) p then 0 else 1)
           \<le> (if has_kit received p then 0 else 1) + resets_of p cs"
  using assms
proof (induction cs arbitrary: received)
  case Nil
  then show ?case by (simp add: kits_given_def resets_of_def)
next
  case (Cons c cs)
  obtain effs r1 where s: "kit_step loc c received = (effs, r1)" by (cases "kit_step loc c received")
  obtain effs' r2 where r: "kit_run loc cs r1 = (effs', r2)" by (cases "kit_run loc cs r1")
  have 1: "kits_given p effs + (if has_kit r1 p then 0 else 1) \<le> (if has_kit received p then 0 else 1) + resets_of p [c]"
    using kit_step_bound[of c p loc received] Cons.prems s by simp
  have 2: "kits_given p effs' + (if has_kit r2 p then 0 else 1) \<le> (if has_kit r1 p then 0 else 1) + resets_of p cs"
    using Cons.IH[of r1] Cons.prems r by simp
  have "kit_run loc (c # cs) received = (effs @ effs', r2)" using s r by simp
  then show ?case using 1 2 by (simp add: kits_given_append resets_of_Cons[of p c cs])
qed


lemma grants_of_simps:
  "grants_of [] = []"
  "grants_of (GiveItem q i n # es) = (q, i, n) # grants_of es"
  "grants_of (GiveItemStack q i n # es) = (q, i, n) # grants_of es"
  "grants_of (Reply m # es) = grants_of es"
  "grants_of (SaveData k v # es) = grants_of es"
  "grants_of (GetPlayer q # es) = grants_of es"
  "grants_of (SpawnParticle a x y z c # es) = grants_of es"
  "grants_of (PlaySound a x y z vol pit # es) = grants_of es"
  "grants_of (SendFeedback m # es) = grants_of es"
  "grants_of (SendError m # es) = grants_of es"
  "grants_of (WorldPlaySound q a # es) = grants_of es"
  "grants_of (WorldSpawnParticles a x y z c # es) = grants_of es"
  by (simp_all add: grants_of_def)

lemma grants_of_append: "grants_of (xs @ ys) = grants_of xs @ grants_of ys"
  by (simp add: grants_of_def)

lemma grants_of_give_items:
  "grants_of (give_items p items) = map (\<lambda>(itemId, n). (p, itemId, n)) items"
  by (induction items) (auto simp: grants_of_simps)

text \<open>
  C2, as the code has it. For spawn-kit's \<^verbatim>\<open>/kit\<close> and \<^verbatim>\<open>/kitreset\<close>, with clock readings
  other than 0: in every run from a mapping, the number of kits handed to a player is at
  most the number of \<^verbatim>\<open>/kitreset\<close> calls naming the player, plus one when the player is not
  yet marked. A marked player's \<^verbatim>\<open>/kit\<close> gives nothing, replies that the kit was already
  received and leaves the mapping; an unmarked player's \<^verbatim>\<open>/kit\<close> hands out the seven stacks
  and marks the player; \<^verbatim>\<open>/kitreset\<close> of a player with a truthy own entry, under a name that
  is not a member of \<^verbatim>\<open>Object.prototype\<close>, unmarks the player, so that one more kit can
  be claimed. The sample mod's \<^verbatim>\<open>/js kit\<close> and standalone \<^verbatim>\<open>/kit\<close> keep no record: for every
  player and every state of the mod, an invocation by the player returns 1, hands out all
  stacks of its tier (five and eight) and leaves the state as it was.
\<close>

theorem kit_once_until_reset:
  "((\<forall>c \<in> set cs. clock_nonzero c) \<longrightarrow>
      kits_given p (fst (kit_run loc cs received))
        \<le> (if has_kit received p then 0 else 1) + resets_of p cs)
   \<and> (has_player ctx \<and> ctx_playerName ctx = p \<and> has_kit received p \<longrightarrow>
        kit_execute loc now info ctx received =
          ([Reply ''You've already received your starter kit!'',
            Reply (''Received on: '' @ loc (prop_val (lookup_prop received p)))],
           received))
   \<and> (has_player ctx \<and> ctx_playerName ctx = p \<and> \<not> has_kit received p \<and> now \<noteq> 0 \<longrightarrow>
        grants_of (fst (kit_execute loc now info ctx received)) =
          map (\<lambda>(itemId, n). (p, itemId, n)) starterKit
        \<and> has_kit (snd (kit_execute loc now info ctx received)) p)
   \<and> (map_of received p = Some v \<and> truthy v \<and> p \<notin> set object_prototype_keys \<longrightarrow>
        \<not> has_kit (snd (kitreset_execute p received)) p)
   \<and> js_kit (Some player) s =
        (1, [GiveItemStack (p_uuid player) ''DIAMOND_SWORD'' 1,
             GiveItemStack (p_uuid player) ''DIAMOND_PICKAXE'' 1,
             GiveItemStack (p_uuid player) ''COOKED_BEEF'' 32,
             GiveItemStack (p_uuid player) ''TORCH'' 64,
             GiveItemStack (p_uuid player) ''OAK_PLANKS'' 64,
             WorldPlaySound (p_uuid player) ''ENTITY_ITEM_PICKUP'',
             SendFeedback ''Starter kit received!''], s)
   \<and> grants_of (fst (snd (js_kit (Some player) s))) =
        [(p_uuid player, ''DIAMOND_SWORD'', 1), (p_uuid player, ''DIAMOND_PICKAXE'', 1),
         (p_uuid player, ''COOKED_BEEF'', 32), (p_uuid player, ''TORCH'', 64),
         (p_uuid player, ''OAK_PLANKS'', 64)]
   \<and> fst (kit (Some player) s) = 1
   \<and> grants_of (fst (snd (kit (Some player) s))) =
        [(p_uuid player, ''IRON_SWORD'', 1), (p_uuid player, ''IRON_PICKAXE'', 1),
         (p_uuid player, ''IRON_AXE'', 1), (p_uuid player, ''BREAD'', 16),
         (p_uuid player, ''TORCH'', 32), (p_uuid player, ''OAK_PLANKS'', 64),
         (p_uuid player, ''CRAFTING_TABLE'', 1), (p_uuid player, ''FURNACE'', 1)]
   \<and> snd (snd (kit (Some player) s)) = s"
proof (intro conjI impI)
  assume "\<forall>c \<in> set cs. clock_nonzero c"
  from kit_run_bound[OF this, of p loc received]
  show "kits_given p (fst (kit_run loc cs received)) \<le> (if has_kit received p then 0 else 1) + resets_of p cs"
    by simp
next
  assume "has_player ctx \<and> ctx_playerName ctx = p \<and> has_kit received p"
  then show "kit_execute loc now info ctx received =
          ([Reply ''You've already received your starter kit!'',
            Reply (''Received on: '' @ loc (prop_val (lookup_prop received p)))],
           received)"
    using kit_execute_cases(2)[of ctx received loc now info] by auto
next
  assume a: "has_player ctx \<and> ctx_playerName ctx = p \<and> \<not> has_kit received p \<and> now \<noteq> 0"
  then show "grants_of (fst (kit_execute loc now info ctx received)) =
          map (\<lambda>(itemId, n). (p, itemId, n)) starterKit"
    using kit_execute_cases(3)[of ctx received loc now info]
    by (auto simp: grants_of_append grants_of_give_items grants_of_simps)
  from a show "has_kit (snd (kit_execute loc now info ctx received)) p"
    using kit_execute_cases(3)[of ctx received loc now info]
    by (auto simp: has_kit_assign_same)
next
  assume a: "map_of received p = Some v \<and> truthy v \<and> p \<notin> set object_prototype_keys"
  then have "has_kit received p" by (simp add: has_kit_def lookup_prop_def prop_val_def)
  then have "snd (kitreset_execute p received) = AList.delete p received"
    by (simp add: kitreset_execute_cases)
  then show "\<not> has_kit (snd (kitreset_execute p received)) p"
    using a by (simp add: has_kit_def lookup_prop_def prop_val_def delete_conv')
next
  show "js_kit (Some player) s =
        (1, [GiveItemStack (p_uuid player) ''DIAMOND_SWORD'' 1,
             GiveItemStack (p_uuid player) ''DIAMOND_PICKAXE'' 1,
             GiveItemStack (p_uuid player) ''COOKED_BEEF'' 32,
             GiveItemStack (p_uuid player) ''TORCH'' 64,
             GiveItemStack (p_uuid player) ''OAK_PLANKS'' 64,
             WorldPlaySound (p_uuid player) ''ENTITY_ITEM_PICKUP'',
             SendFeedback ''Starter kit received!''], s)"
    by (simp add: js_kit_def)
next
  show "grants_of (fst (snd (js_kit (Some player) s))) =
        [(p_uuid player, ''DIAMOND_SWORD'', 1), (p_uuid player, ''DIAMOND_PICKAXE'', 1),
         (p_uuid player, ''COOKED_BEEF'', 32), (p_uuid player, ''TORCH'', 64),
         (p_uuid player, ''OAK_PLANKS'', 64)]"
    by (simp add: js_kit_def grants_of_simps)
next
  show "fst (kit (Some player) s) = 1"
    by (simp add: kit_def)
next
  show "grants_of (fst (snd (kit (Some player) s))) =
        [(p_uuid player, ''IRON_SWORD'', 1), (p_uuid player, ''IRON_PICKAXE'', 1),
         (p_uuid player, ''IRON_AXE'', 1), (p_uuid player, ''BREAD'', 16),
         (p_uuid player, ''TORCH'', 32), (p_uuid player, ''OAK_PLANKS'', 64),
         (p_uuid player, ''CRAFTING_TABLE'', 1), (p_uuid player, ''FURNACE'', 1)]"
    by (simp add: kit_def grants_of_simps)
next
  show "snd (snd (kit (Some player) s)) = s"
    by (simp add: kit_def)
qed

theorem kit_once_until_reset_witness:
  "list_all clock_nonzero example_kit_run
   \<and> resets_of ''Steve'' example_kit_run = 1
   \<and> kits_given ''Steve'' (fst (kit_run example_locale example_kit_run [])) \<le> 2
   \<and> has_player steve_ctx \<and> ctx_playerName steve_ctx = ''Steve'' \<and> \<not> has_kit [] ''Steve''
   \<and> has_kit (snd (kit_execute example_locale 1700000000000 steve_info steve_ctx [])) ''Steve''
   \<and> grants_of (fst (kit_execute example_locale 1700000000000 steve_info steve_ctx [])) =
        map (\<lambda>(itemId, n). (''Steve'', itemId, n)) starterKit
   \<and> kit_execute example_locale 1700000001000 steve_info steve_ctx [(''Steve'', JNum 1700000000000)] =
        ([Reply ''You've already received your starter kit!'',
          Reply ''Received on: 11/14/2023, 10:13:20 PM''],
         [(''Steve'', JNum 1700000000000)])
   \<and> \<not> has_kit (snd (kitreset_execute ''Steve'' [(''Steve'', JNum 1700000000000)])) ''Steve''
   \<and> length (grants_of (fst (snd (js_kit (Some alice) daily_state)))) = 5
   \<and> snd (snd (js_kit (Some alice) daily_state)) = daily_state
   \<and> length (grants_of (fst (snd (kit (Some alice) daily_state)))) = 8
   \<and> snd (snd (kit (Some alice) daily_state)) = daily_state"
proof -
  have nz: "\<forall>c \<in> set example_kit_run. clock_nonzero c"
    by (simp add: example_kit_run_def steve_kit_def)
  have rs: "resets_of ''Steve'' example_kit_run = 1"
    by (simp add: example_kit_run_def steve_kit_def resets_of_def)
  have ctx: "has_player steve_ctx" "ctx_playerName steve_ctx = ''Steve''"
    by (simp_all add: steve_ctx_def)
  have fresh: "\<not> has_kit [] ''Steve''"
    by (simp add: has_kit_def lookup_prop_def prop_val_def object_prototype_keys_def)
  have held: "has_kit [(''Steve'', JNum 1700000000000)] ''Steve''"
    by (simp add: has_kit_def lookup_prop_def prop_val_def)
  have own: "''Steve'' \<notin> set object_prototype_keys"
    by (simp add: object_prototype_keys_def)
  note run = kit_once_until_reset[where cs = example_kit_run and p = "''Steve''" and loc = example_locale
      and received = "[]" and ctx = steve_ctx and now = 1700000000000 and info = steve_info
      and v = "JNum 1700000000000" and player = alice and s = daily_state]
  note again = kit_once_until_reset[where cs = "[]" and p = "''Steve''" and loc = example_locale
      and received = "[(''Steve'', JNum 1700000000000)]" and ctx = steve_ctx
      and now = 1700000001000 and info = steve_info and v = "JNum 1700000000000"
      and player = alice and s = daily_state]
  show ?thesis
    using run again nz rs ctx fresh held own
    by (simp add: list_all_iff example_locale_def lookup_prop_def prop_val_def)
qed

text \<open>
  The bound is reached by the example run (kit, kit again, reset, kit). The proviso on the
  clock is needed: the mark is the clock reading itself, tested for truth, so a kit
  claimed at reading 0 can be claimed again at once.
\<close>

lemma example_run_gives_two_kits:
  "kits_given ''Steve'' (fst (kit_run example_locale example_kit_run [])) = 2"
  by code_simp

lemma kit_at_clock_zero_is_granted_again:
  "kits_given ''Steve''
     (fst (kit_run example_locale [Kit 0 steve_info steve_ctx, Kit 0 steve_info steve_ctx] [])) = 2"
  by code_simp

text \<open>
  C2 as stated, for every kit command of the repository, does not hold: the sample mod's
  standalone \<^verbatim>\<open>/kit\<close> keeps no record, and a second invocation by the same player hands
  out the same eight stacks again.
\<close>

theorem sample_kit_grants_every_time:
  "fst (kit (Some alice) daily_state) = 1
   \<and> length (grants_of (fst (snd (kit (Some alice) daily_state)))) = 8
   \<and> fst (kit (Some alice) (snd (snd (kit (Some alice) daily_state)))) = 1
   \<and> grants_of (fst (snd (kit (Some alice) (snd (snd (kit (Some alice) daily_state)))))) =
       grants_of (fst (snd (kit (Some alice) daily_state)))"
  by (simp add: kit_def grants_of_simps)

section \<open>Saving after a mutation\<close>













section \<open>Failed preconditions\<close>

lemma activity_execute_absent:
  "lookup_prop activity (activity_target ctx) = Absent \<Longrightarrow>
     activity_execute dloc now ctx activity =
       Some [Reply (''No activity data for '' @ activity_target ctx)]"
  by (simp add: activity_execute_def)

lemma home_execute_guards:
  "\<not> has_player ctx \<Longrightarrow>
     home_execute info ctx homes = Some ([Reply ''Only players can use this command!''], homes)"
  "has_player ctx \<Longrightarrow> lookup_prop homes (ctx_playerName ctx) = Absent \<Longrightarrow>
     home_action ctx \<noteq> ''set'' \<Longrightarrow>
     home_execute info ctx homes =
       Some ([Reply (if home_action ctx = ''delete'' \<or> home_action ctx = ''list''
                     then ''You don't have a home set!''
                     else ''You don't have a home set! Use /home set'')], homes)"
  by (simp_all add: home_execute_def Let_def)

text \<open>
  C5, as the code has it. In spawn-kit, player-tracker and teleport-home a failed
  precondition makes the handler send one chat reply and return, the mapping unchanged
  and nothing saved: a sender that is not a player (\<^verbatim>\<open>/kit\<close>, \<^verbatim>\<open>/home\<close>), or a name that
  \<^verbatim>\<open>/kitreset\<close>, \<^verbatim>\<open>/activity\<close> or \<^verbatim>\<open>/home delete|list\<close> and the teleport do not find (neither as
  an own entry nor on \<^verbatim>\<open>Object.prototype\<close>). In the sample mod a sender that is not a
  player makes \<^verbatim>\<open>/js kit\<close>, \<^verbatim>\<open>/kit\<close>, \<^verbatim>\<open>/js home set|go|info|clear\<close> and \<^verbatim>\<open>/js daily\<close> return 0
  with no effect and no message, and \<^verbatim>\<open>/js playtime\<close> return 0 after sending an error; a
  player without a home gets an error and 0 from \<^verbatim>\<open>/js home go|info\<close>. Every one of these
  invocations returns normally.
\<close>

theorem failed_precondition_replies:
  "(\<not> has_player ctx \<longrightarrow>
      kit_execute loc now info ctx received = ([Reply ''Only players can use this command!''], received)
      \<and> home_execute info ctx homes = Some ([Reply ''Only players can use this command!''], homes))
   \<and> (lookup_prop received target = Absent \<longrightarrow>
      kitreset_execute target received = ([Reply (target @ '' hasn't received a kit yet'')], received))
   \<and> (lookup_prop activity (activity_target ctx) = Absent \<longrightarrow>
      activity_execute dloc now ctx activity =
        Some [Reply (''No activity data for '' @ activity_target ctx)])
   \<and> (has_player ctx \<and> lookup_prop homes (ctx_playerName ctx) = Absent \<and> home_action ctx \<noteq> ''set'' \<longrightarrow>
      home_execute info ctx homes =
        Some ([Reply (if home_action ctx = ''delete'' \<or> home_action ctx = ''list''
                      then ''You don't have a home set!''
                      else ''You don't have a home set! Use /home set'')], homes))
   \<and> js_kit None s = (0, [], s) \<and> kit None s = (0, [], s)
   \<and> js_home_set None s = (0, [], s) \<and> js_home_go None s = (0, [], s)
   \<and> js_home_info None s = (0, [], s) \<and> js_home_clear None s = (0, [], s)
   \<and> js_daily now None s = (0, [], s)
   \<and> js_playtime now None s = (0, [SendError ''Players only!''], s)
   \<and> (map_of (homeData s) (p_uuid player) = None \<longrightarrow>
      js_home_go (Some player) s = (0, [SendError ''No home set. Use /js home set first.''], s)
      \<and> js_home_info (Some player) s = (0, [SendError ''No home set.''], s))"
proof -
  have a: "lookup_prop received target = Absent \<Longrightarrow>
      kitreset_execute target received = ([Reply (target @ '' hasn't received a kit yet'')], received)"
    by (simp add: kitreset_execute_def prop_val_def)
  have b: "js_kit None s = (0, [], s) \<and> kit None s = (0, [], s)
   \<and> js_home_set None s = (0, [], s) \<and> js_home_go None s = (0, [], s)
   \<and> js_home_info None s = (0, [], s) \<and> js_home_clear None s = (0, [], s)
   \<and> js_daily now None s = (0, [], s)
   \<and> js_playtime now None s = (0, [SendError ''Players only!''], s)"
    by (simp add: js_kit_def kit_def js_home_set_def js_home_go_def js_home_info_def
        js_home_clear_def js_daily_def js_playtime_def)
  have c: "map_of (homeData s) (p_uuid player) = None \<Longrightarrow>
      js_home_go (Some player) s = (0, [SendError ''No home set. Use /js home set first.''], s)
      \<and> js_home_info (Some player) s = (0, [SendError ''No home set.''], s)"
    by (simp add: js_home_go_def js_home_info_def)
  show ?thesis
    using a b c kit_execute_cases(1)[where ctx = ctx and loc = loc and now = now and info = info
        and received = received]
      home_execute_guards[where ctx = ctx and info = info and homes = homes]
      activity_execute_absent[where activity = activity and ctx = ctx and dloc = dloc and now = now]
    by blast
qed

theorem failed_precondition_replies_witness:
  "\<not> has_player console_ctx
   \<and> kit_execute example_locale 1700000000000 steve_info console_ctx [] =
        ([Reply ''Only players can use this command!''], [])
   \<and> home_execute steve_info console_ctx [] =
        Some ([Reply ''Only players can use this command!''], [])
   \<and> kitreset_execute ''Steve'' [] = ([Reply ''Steve hasn't received a kit yet''], [])
   \<and> activity_execute (\<lambda>t. ''11/14/2023'') 1700000000000 steve_ctx [] =
        Some [Reply ''No activity data for Steve'']
   \<and> home_execute steve_info steve_ctx [] =
        Some ([Reply ''You don't have a home set! Use /home set''], [])
   \<and> js_home_go (Some alice) daily_state =
        (0, [SendError ''No home set. Use /js home set first.''], daily_state)"
proof -
  have absent:
    "lookup_prop ([] :: (string \<times> jsval) list) ''Steve'' = Absent"
    "lookup_prop ([] :: (string \<times> PlayerActivity) list) ''Steve'' = Absent"
    "lookup_prop ([] :: (string \<times> home) list) ''Steve'' = Absent"
    by (simp_all add: lookup_prop_def object_prototype_keys_def)
  have c: "\<not> has_player console_ctx" by (simp add: console_ctx_def)
  have t: "activity_target steve_ctx = ''Steve''" "home_action steve_ctx = ''tp''"
    "has_player steve_ctx" "ctx_playerName steve_ctx = ''Steve''"
    by (simp_all add: activity_target_def home_action_def steve_ctx_def)
  have h: "map_of (homeData daily_state) (p_uuid alice) = None"
    by (simp add: daily_state_def)
  note console = failed_precondition_replies[where ctx = console_ctx and loc = example_locale
      and now = 1700000000000 and info = steve_info and received = "[]" and homes = "[]"
      and target = "''Steve''" and activity = "[]" and dloc = "\<lambda>t. ''11/14/2023''"
      and s = daily_state and player = alice]
  note steve = failed_precondition_replies[where ctx = steve_ctx and loc = example_locale
      and now = 1700000000000 and info = steve_info and received = "[]" and homes = "[]"
      and target = "''Steve''" and activity = "[]" and dloc = "\<lambda>t. ''11/14/2023''"
      and s = daily_state and player = alice]
  show ?thesis
    using console steve c t h absent by simp
qed

text \<open>
  C5 as stated, for every registered handler, does not hold: \<^verbatim>\<open>/js kit\<close> from the console
  returns 0 and sends nothing.
\<close>

theorem sample_kit_is_silent_for_console:
  "js_kit None daily_state = (0, [], daily_state)"
  by (simp add: js_kit_def)

text \<open>
  A name that is a member of \<^verbatim>\<open>Object.prototype\<close> passes the tests \<^verbatim>\<open>received[name]\<close> and
  \<^verbatim>\<open>homes[name]\<close> without an entry: on the empty mapping, \<^verbatim>\<open>/kitreset constructor\<close> reports a
  reset and saves, and \<^verbatim>\<open>/kit\<close> by a player of that name answers that the kit was already
  received.
\<close>

lemma kitreset_of_a_prototype_name:
  "kitreset_execute ''constructor'' [] =
     ([SaveData ''kit_received'' (JObj []), Reply ''Reset kit status for constructor''], [])"
  by code_simp

lemma kit_of_a_prototype_name:
  "kit_execute example_locale 1700000000000 steve_info
      \<lparr>has_player = True, ctx_playerName = ''constructor'', arg_player = None, arg_action = None\<rparr> [] =
     ([Reply ''You've already received your starter kit!'',
       Reply ''Received on: 11/14/2023, 10:13:20 PM''], [])"
  by code_simp

section \<open>Keys of the persisted mappings\<close>

text \<open>
  C6 at a failing input. A command-execute event of a player named \<^verbatim>\<open>constructor\<close>, on
  the empty mapping: \<^verbatim>\<open>activity["constructor"]\<close> finds the built-in function on the
  prototype, so no entry is created, the three updates are written to that function, and
  the mapping saved is still empty, although an event was observed for that name.
\<close>

theorem tracker_skips_prototype_names:
  "onCommandExecute 5 6 constructor_event [] =
     Some ([BuiltinWrite ''constructor'', SaveData ''player_activity'' (JObj [])], [])
   \<and> ev_playerName constructor_event = ''constructor''"
proof -
  have "onCommandExecute 5 6 constructor_event [] =
     Some ([BuiltinWrite ''constructor'', SaveData ''player_activity'' (JObj [])], [])"
    by code_simp
  then show ?thesis by (simp add: constructor_event_def)
qed

text \<open>
  For every other name the keys are as the spec describes them. In spawn-kit, in every
  run from the empty mapping with clock readings other than 0, the keys of \<^verbatim>\<open>received\<close> are
  the names (not members of \<^verbatim>\<open>Object.prototype\<close>) whose last \<^verbatim>\<open>/kit\<close> by a player has no
  \<^verbatim>\<open>/kitreset\<close> after it.
\<close>

lemma set_update_subset: "set (AList.update k v al) \<subseteq> insert (k, v) (set al)"
  by (induction al) auto

lemma set_delete_subset: "set (AList.delete k al) \<subseteq> set al"
  by (auto simp: AList.delete_eq)

lemma keys_delete: "fst ` set (AList.delete k al) = fst ` set al - {k}"
  by (auto simp: AList.delete_eq image_iff)

lemma well_kept_has_kit:
  assumes "well_kept received"
  shows "has_kit received p \<longleftrightarrow> p \<in> fst ` set received \<or> p \<in> set object_prototype_keys"
proof (cases "map_of received p")
  case None
  then have "p \<notin> fst ` set received" by (simp add: map_of_eq_None_iff)
  with None show ?thesis by (simp add: has_kit_def lookup_prop_def prop_val_def)
next
  case (Some v)
  then have "(p, v) \<in> set received" by (rule map_of_SomeD)
  then have "p \<in> fst ` set received" by force
  moreover have "truthy v" using assms \<open>(p, v) \<in> set received\<close> by (auto simp: well_kept_def)
  ultimately show ?thesis using Some by (simp add: has_kit_def lookup_prop_def prop_val_def)
qed

lemma kit_step_keys:
  assumes "well_kept received" "clock_nonzero c"
  shows "well_kept (snd (kit_step loc c received))
         \<and> fst ` set (snd (kit_step loc c received)) = holders [c] (fst ` set received)"
proof (cases c)
  case (Kit now info ctx)
  with assms have nz: "now \<noteq> 0" by simp
  let ?p = "ctx_playerName ctx"
  show ?thesis
  proof (cases "has_player ctx")
    case False
    then show ?thesis using Kit assms by (simp add: kit_execute_cases)
  next
    case pl: True
    show ?thesis
    proof (cases "has_kit received ?p")
      case True
      then have "?p \<in> fst ` set received \<or> ?p \<in> set object_prototype_keys"
        using well_kept_has_kit[OF assms(1)] by simp
      moreover have "?p \<in> fst ` set received \<Longrightarrow> ?p \<notin> set object_prototype_keys"
        using assms(1) by (auto simp: well_kept_def)
      ultimately show ?thesis using Kit pl True assms(1)
        by (auto simp: kit_execute_cases insert_absorb)
    next
      case False
      then have np: "?p \<notin> set object_prototype_keys" and nk: "?p \<notin> fst ` set received"
        using well_kept_has_kit[OF assms(1)] by auto
      then have ne: "?p \<noteq> ''__proto__''" using proto_inherited by auto
      have r: "snd (kit_step loc c received) = AList.update ?p (JNum (of_int now)) received"
        using Kit pl False ne by (simp add: kit_execute_cases assign_primitive_def)
      have "well_kept (AList.update ?p (JNum (of_int now)) received)"
        using assms(1) np nz set_update_subset[of ?p "JNum (of_int now)" received]
        by (auto simp: well_kept_def)
      then show ?thesis using r Kit pl np by (simp add: dom_update)
    qed
  qed
next
  case (KitReset target)
  show ?thesis
  proof (cases "has_kit received target")
    case True
    then have r: "snd (kit_step loc c received) = AList.delete target received"
      using KitReset by (simp add: kitreset_execute_cases)
    have "well_kept (AList.delete target received)"
      using assms(1) set_delete_subset[of target received] by (auto simp: well_kept_def)
    then show ?thesis using r KitReset by (simp add: keys_delete)
  next
    case False
    then have "target \<notin> fst ` set received"
      using well_kept_has_kit[OF assms(1)] by simp
    then show ?thesis using False KitReset assms(1) by (simp add: kitreset_execute_cases)
  qed
qed

lemma holders_Cons: "holders (c # cs) S = holders cs (holders [c] S)"
  by (cases c) simp_all

lemma kit_run_keys:
  assumes "well_kept received" "\<forall>c \<in> set cs. clock_nonzero c"
  shows "well_kept (snd (kit_run loc cs received))
         \<and> fst ` set (snd (kit_run loc cs received)) = holders cs (fst ` set received)"
  using assms
proof (induction cs arbitrary: received)
  case Nil
  then show ?case by simp
next
  case (Cons c cs)
  obtain effs r1 where s: "kit_step loc c received = (effs, r1)" by (cases "kit_step loc c received")
  obtain effs' r2 where r: "kit_run loc cs r1 = (effs', r2)" by (cases "kit_run loc cs r1")
  have 1: "well_kept r1 \<and> fst ` set r1 = holders [c] (fst ` set received)"
    using kit_step_keys[of received c loc] Cons.prems s by simp
  then have 2: "well_kept r2 \<and> fst ` set r2 = holders cs (fst ` set r1)"
    using Cons.IH[of r1] Cons.prems r by simp
  show ?case using 1 2 s r by (simp add: holders_Cons[of c cs])
qed

theorem received_keys_are_the_holders:
  assumes "\<forall>c \<in> set cs. clock_nonzero c"
  shows "fst ` set (snd (kit_run loc cs [])) = holders cs {}"
  using kit_run_keys[of "[]" cs loc] assms by (simp add: well_kept_def)

text \<open>
  In player-tracker, in every modelled run of command-execute events, the keys of
  \<^verbatim>\<open>activity\<close> are the keys it started with and the names of the events observed, the
  members of \<^verbatim>\<open>Object.prototype\<close> excepted.
\<close>

lemma lookup_prop_cases:
  "lookup_prop obj k = Own v \<longleftrightarrow> map_of obj k = Some v"
  "lookup_prop obj k = Inherited \<longleftrightarrow> map_of obj k = None \<and> k \<in> set object_prototype_keys"
  "lookup_prop obj k = Absent \<longleftrightarrow> map_of obj k = None \<and> k \<notin> set object_prototype_keys"
  unfolding lookup_prop_def by (cases "map_of obj k"; simp)+

lemma onCommandExecute_cases:
  "lookup_prop activity (ev_playerName event) = Absent \<Longrightarrow>
     onCommandExecute now_seen now_active event activity =
       (let activity' = AList.update (ev_playerName event)
              (bump (ev_command event) now_active
                 \<lparr>commandCount = 0, lastCommand = None, lastActive = None, firstSeen = now_seen\<rparr>)
              activity
        in Some ([SaveData ''player_activity'' (activity_map_json activity')], activity'))"
  "lookup_prop activity (ev_playerName event) = Own a \<Longrightarrow>
     onCommandExecute now_seen now_active event activity =
       (let activity' = AList.update (ev_playerName event) (bump (ev_command event) now_active a) activity
        in Some ([SaveData ''player_activity'' (activity_map_json activity')], activity'))"
  "lookup_prop activity (ev_playerName event) = Inherited \<Longrightarrow>
     onCommandExecute now_seen now_active event activity =
       (if ev_playerName event = ''__proto__'' then None
        else Some ([BuiltinWrite (ev_playerName event),
                    SaveData ''player_activity'' (activity_map_json activity)], activity))"
  by (simp_all add: onCommandExecute_def Let_def)

lemma keys_aux:
  "p \<in> K \<Longrightarrow> A = {p} \<union> K \<Longrightarrow> A = K \<union> ({p} - P)"
  "p \<in> P \<Longrightarrow> A = K \<Longrightarrow> A = K \<union> ({p} - P)"
  "p \<notin> P \<Longrightarrow> A = {p} \<union> K \<Longrightarrow> A = K \<union> ({p} - P)"
  by blast+

lemma onCommandExecute_keys:
  assumes "onCommandExecute now_seen now_active event activity = Some (effs, activity')"
  shows "fst ` set activity' =
           fst ` set activity \<union> ({ev_playerName event} - set object_prototype_keys)"
proof (cases "lookup_prop activity (ev_playerName event)")
  case (Own a)
  then have "map_of activity (ev_playerName event) = Some a"
    by (simp add: lookup_prop_cases)
  then have "(ev_playerName event, a) \<in> set activity" by (rule map_of_SomeD)
  then have k: "ev_playerName event \<in> fst ` set activity" by (rule rev_image_eqI) simp
  have "activity' = AList.update (ev_playerName event) (bump (ev_command event) now_active a) activity"
    using assms unfolding onCommandExecute_cases(2)[OF Own] Let_def by simp
  then have "fst ` set activity' = {ev_playerName event} \<union> fst ` set activity"
    by (simp only: dom_update)
  with k show ?thesis by (rule keys_aux(1))
next
  case Inherited
  then have k: "ev_playerName event \<in> set object_prototype_keys"
    by (simp add: lookup_prop_cases)
  have "activity' = activity"
    using assms unfolding onCommandExecute_cases(3)[OF Inherited] by (simp split: if_splits)
  with k show ?thesis by (simp only: keys_aux(2))
next
  case Absent
  then have k: "ev_playerName event \<notin> set object_prototype_keys"
    by (simp add: lookup_prop_cases)
  have "\<exists>a. activity' = AList.update (ev_playerName event) a activity"
    using assms unfolding onCommandExecute_cases(1)[OF Absent] Let_def by auto
  then obtain a where "activity' = AList.update (ev_playerName event) a activity" ..
  then have "fst ` set activity' = {ev_playerName event} \<union> fst ` set activity"
    by (simp only: dom_update)
  with k show ?thesis by (rule keys_aux(3))
qed


lemma keys_step:
  "A1 = K \<union> ({p} - P) \<Longrightarrow> A' = A1 \<union> (N - P) \<Longrightarrow> A' = K \<union> (insert p N - P)"
  by blast

theorem activity_keys_are_the_observed_names:
  assumes "tracker_run es activity = Some activity'"
  shows "fst ` set activity' =
           fst ` set activity \<union> ((\<lambda>(t, t', e). ev_playerName e) ` set es - set object_prototype_keys)"
  using assms
proof (induction es arbitrary: activity)
  case Nil
  then show ?case by simp
next
  case (Cons x es)
  obtain t t' e where x: "x = (t, t', e)" by (cases x)
  from Cons.prems x obtain effs a1 where
    s: "onCommandExecute t t' e activity = Some (effs, a1)" and r: "tracker_run es a1 = Some activity'"
    by (auto split: option.splits)
  have "fst ` set activity' = fst ` set activity \<union>
          (insert (ev_playerName e) ((\<lambda>(t, t', e). ev_playerName e) ` set es) - set object_prototype_keys)"
    using onCommandExecute_keys[OF s] Cons.IH[OF r] by (rule keys_step)
  then show ?case by (simp add: x)
qed

end
